theory Spec2Isabelle
  imports Main "HOL-Library.Word"
begin

text \<open>
  The package \<open>observability\<close> of the service: a registry of counters, histograms and
  gauges over an OpenTelemetry meter, a gauge adapter that turns absolute values into
  deltas, a facade for spans, a background sampler of runtime figures, and the HTTP
  middleware that records every request. The package keeps its state in package
  variables; here every function takes that state and returns the new one. What the
  libraries do (instruments, spans, the log, the response writer) is recorded as a
  list of effects.
\<close>

section \<open>Go strings: bytes, runes and UTF-8\<close>

text \<open>
  A Go string is a sequence of bytes, here a \<open>string\<close> (each \<open>char\<close> is one byte).
  Ranging over a string and \<open>strings.Map\<close> decode it into runes (code points) with
  \<open>utf8.DecodeRuneInString\<close>: a byte below \<open>0x80\<close> is its own rune, a well-formed
  multi-byte sequence is one rune, and any other byte is the rune \<open>RuneError\<close> of width 1.
  The masks and shifts of the decoder are written as \<open>mod\<close> and multiplication:
  \<open>s0 & 0x1F\<close> is \<open>s0 mod 32\<close>, \<open>x << 6\<close> is \<open>x * 64\<close>, and \<open>|\<close> joins disjoint bit fields.
\<close>

type_synonym rune = int

definition RuneError :: rune where
  "RuneError = 0xFFFD"

definition RuneSelf :: rune where
  "RuneSelf = 0x80"

text \<open>
  The table \<open>first\<close> of package \<open>utf8\<close> with its accept ranges: for a leading byte of a
  multi-byte sequence, the length of the sequence and the bounds of its second byte.
\<close>

definition first_info :: "int \<Rightarrow> (nat \<times> int \<times> int) option" where
  "first_info b =
     (if 0xC2 \<le> b \<and> b \<le> 0xDF then Some (2, 0x80, 0xBF)
      else if b = 0xE0 then Some (3, 0xA0, 0xBF)
      else if 0xE1 \<le> b \<and> b \<le> 0xEC then Some (3, 0x80, 0xBF)
      else if b = 0xED then Some (3, 0x80, 0x9F)
      else if 0xEE \<le> b \<and> b \<le> 0xEF then Some (3, 0x80, 0xBF)
      else if b = 0xF0 then Some (4, 0x90, 0xBF)
      else if 0xF1 \<le> b \<and> b \<le> 0xF3 then Some (4, 0x80, 0xBF)
      else if b = 0xF4 then Some (4, 0x80, 0x8F)
      else None)"

fun DecodeRuneInString :: "string \<Rightarrow> rune \<times> nat" where
  "DecodeRuneInString [] = (RuneError, 0)"
| "DecodeRuneInString (c0 # rest) =
     (let s0 = of_char c0 in
      if s0 < RuneSelf then (s0, 1)
      else case first_info s0 of
        None \<Rightarrow> (RuneError, 1)
      | Some (sz, lo, hi) \<Rightarrow>
          if length (c0 # rest) < sz then (RuneError, 1)
          else let s1 = of_char (rest ! 0) in
            if s1 < lo \<or> hi < s1 then (RuneError, 1)
            else if sz \<le> 2 then ((s0 mod 32) * 64 + s1 mod 64, 2)
            else let s2 = of_char (rest ! 1) in
              if s2 < 0x80 \<or> 0xBF < s2 then (RuneError, 1)
              else if sz \<le> 3 then ((s0 mod 16) * 4096 + (s1 mod 64) * 64 + s2 mod 64, 3)
              else let s3 = of_char (rest ! 2) in
                if s3 < 0x80 \<or> 0xBF < s3 then (RuneError, 1)
                else ((s0 mod 8) * 262144 + (s1 mod 64) * 4096 + (s2 mod 64) * 64
                        + s3 mod 64, 4))"

text \<open>\<open>utf8.AppendRune\<close>: the bytes of a rune; surrogates and values out of range are
  written as \<open>RuneError\<close>.\<close>

definition EncodeRune :: "rune \<Rightarrow> string" where
  "EncodeRune r =
     (if 0 \<le> r \<and> r < 0x80 then [char_of r]
      else if 0 \<le> r \<and> r < 0x800 then [char_of (0xC0 + r div 64), char_of (0x80 + r mod 64)]
      else if r < 0 \<or> 0x10FFFF < r \<or> (0xD800 \<le> r \<and> r \<le> 0xDFFF)
        then [char_of (0xEF::int), char_of (0xBF::int), char_of (0xBD::int)]
      else if r < 0x10000
        then [char_of (0xE0 + r div 4096), char_of (0x80 + (r div 64) mod 64),
              char_of (0x80 + r mod 64)]
      else [char_of (0xF0 + r div 262144), char_of (0x80 + (r div 4096) mod 64),
            char_of (0x80 + (r div 64) mod 64), char_of (0x80 + r mod 64)])"

text \<open>The runes a \<open>range\<close> loop over the string yields, in order.\<close>

function runes :: "string \<Rightarrow> rune list" where
  "runes s =
     (if s = [] then []
      else fst (DecodeRuneInString s) # runes (drop (snd (DecodeRuneInString s)) s))"
  by pat_completeness auto
termination
proof (relation "measure length")
  show "wf (measure length)" by simp
next
  fix s :: string
  assume "s \<noteq> []"
  then have "1 \<le> snd (DecodeRuneInString s)"
    by (cases s) (auto simp: Let_def split: option.splits)
  with \<open>s \<noteq> []\<close> show "(drop (snd (DecodeRuneInString s)) s, s) \<in> measure length"
    by (cases s) auto
qed

declare runes.simps [simp del]

definition RuneCountInString :: "string \<Rightarrow> nat" where
  "RuneCountInString s = length (runes s)"

text \<open>
  \<open>strings.Map(mapping, s)\<close>: every rune of \<open>s\<close> is replaced by its image, written as one
  byte when it is below \<open>RuneSelf\<close> and as its UTF-8 encoding otherwise; a negative image
  drops the rune.
\<close>

function strings_Map :: "(rune \<Rightarrow> rune) \<Rightarrow> string \<Rightarrow> string" where
  "strings_Map mapping s =
     (if s = [] then []
      else
        let c = fst (DecodeRuneInString s);
            width = snd (DecodeRuneInString s);
            r = mapping c
        in (if 0 \<le> r then (if r < RuneSelf then [char_of r] else EncodeRune r) else [])
           @ strings_Map mapping (drop width s))"
  by pat_completeness auto
termination
proof (relation "measure (\<lambda>(mapping, s). length s)")
  show "wf (measure (\<lambda>(mapping, s). length s))" by simp
next
  fix mapping :: "rune \<Rightarrow> rune" and s :: string and c width r
  assume "s \<noteq> []" and w: "width = snd (DecodeRuneInString s)"
  then have "1 \<le> width"
    by (cases s) (auto simp: Let_def split: option.splits)
  with \<open>s \<noteq> []\<close> show "((mapping, drop width s), (mapping, s)) \<in> measure (\<lambda>(mapping, s). length s)"
    by (cases s) auto
qed

declare strings_Map.simps [simp del]

section \<open>Metric names\<close>

text \<open>
  \<open>sanitizePath\<close> keeps the runes \<open>a..z\<close>, \<open>A..Z\<close> and \<open>0..9\<close> and replaces every other rune
  by an underscore.
\<close>

definition sanitize_rune :: "rune \<Rightarrow> rune" where
  "sanitize_rune r =
     (if (of_char CHR ''a'' \<le> r \<and> r \<le> of_char CHR ''z'')
         \<or> (of_char CHR ''A'' \<le> r \<and> r \<le> of_char CHR ''Z'')
         \<or> (of_char CHR ''0'' \<le> r \<and> r \<le> of_char CHR ''9'')
      then r else of_char CHR ''_'')"

definition sanitizePath :: "string \<Rightarrow> string" where
  "sanitizePath path = strings_Map sanitize_rune path"

text \<open>
  \<open>strings.ToLower\<close> on a string without bytes from \<open>0x80\<close> up, which is what an HTTP
  method token is: the letters \<open>A..Z\<close> are shifted to \<open>a..z\<close>. (On other strings Go
  consults the Unicode case tables, which are outside this development; the byte-wise
  definition is used for method tokens only.)
\<close>

definition lower_byte :: "char \<Rightarrow> char" where
  "lower_byte c =
     (let b = (of_char c :: int) in if 0x41 \<le> b \<and> b \<le> 0x5A then char_of (b + 32) else c)"

definition ToLower :: "string \<Rightarrow> string" where
  "ToLower s = map lower_byte s"

text \<open>A string of bytes below \<open>0x80\<close>; and the bytes of a sanitized path: ASCII letters,
  ASCII digits and the underscore.\<close>

definition is_ascii :: "string \<Rightarrow> bool" where
  "is_ascii s = list_all (\<lambda>c. (of_char c :: int) < 0x80) s"

definition is_alnum_or_filler :: "char \<Rightarrow> bool" where
  "is_alnum_or_filler c =
     (let b = (of_char c :: int) in
      (0x61 \<le> b \<and> b \<le> 0x7A) \<or> (0x41 \<le> b \<and> b \<le> 0x5A) \<or> (0x30 \<le> b \<and> b \<le> 0x39)
      \<or> c = CHR ''_'')"

text \<open>The runes \<open>sanitizePath\<close> keeps.\<close>

definition is_ascii_alnum :: "rune \<Rightarrow> bool" where
  "is_ascii_alnum r = ((0x61 \<le> r \<and> r \<le> 0x7A) \<or> (0x41 \<le> r \<and> r \<le> 0x5A) \<or> (0x30 \<le> r \<and> r \<le> 0x39))"

definition methodPathCounter :: "string \<Rightarrow> string \<Rightarrow> string" where
  "methodPathCounter method path =
     ''http_requests_'' @ ToLower method @ ''_'' @ sanitizePath path"

section \<open>float64\<close>

text \<open>
  Go's \<open>float64\<close> is the IEEE 754 binary64 format. A value is NaN, an infinity, or a
  finite number \<open>(-1)^sign * m * 2^e\<close> with a significand \<open>m < 2^53\<close> and an exponent
  \<open>-1074 \<le> e \<le> 971\<close>, written in the one way in which \<open>2^52 \<le> m\<close> (a normal number) or
  \<open>e = -1074\<close> (a subnormal number or a zero); \<open>is_float64\<close> says that a value is written
  in this way. There are two zeros, \<open>+0\<close> and \<open>-0\<close>. The payload of a NaN, which no code
  of the package reads, is left out.
\<close>

datatype float64 = Finite bool nat int | Infinity bool | NaN

fun is_float64 :: "float64 \<Rightarrow> bool" where
  "is_float64 (Finite sign m e) =
     (m < 2 ^ 53 \<and> - 1074 \<le> e \<and> e \<le> 971 \<and> (2 ^ 52 \<le> m \<or> e = - 1074))"
| "is_float64 (Infinity sign) = True"
| "is_float64 NaN = True"

fun is_finite :: "float64 \<Rightarrow> bool" where
  "is_finite (Finite sign m e) = True"
| "is_finite (Infinity sign) = False"
| "is_finite NaN = False"

definition signed :: "bool \<Rightarrow> nat \<Rightarrow> int" where
  "signed sign m = (if sign then - int m else int m)"

text \<open>
  Every finite \<open>float64\<close> is a whole multiple of \<open>2^-1074\<close>, the smallest positive
  \<open>float64\<close>. \<open>f64_units v\<close> is the number \<open>v\<close> in this unit, \<open>v * 2^1074\<close>; it is read
  for finite values only.
\<close>

fun f64_units :: "float64 \<Rightarrow> int" where
  "f64_units (Finite sign m e) = signed sign m * 2 ^ nat (e + 1074)"
| "f64_units (Infinity sign) = 0"
| "f64_units NaN = 0"

text \<open>The number of binary digits of a natural number.\<close>

fun bitlen :: "nat \<Rightarrow> nat" where
  "bitlen n = (if n = 0 then 0 else Suc (bitlen (n div 2)))"

declare bitlen.simps [simp del]

text \<open>
  Rounding to nearest, ties to the even significand, as Go does for the result of an
  arithmetic operation and of a conversion: \<open>f64_round sign M e\<close> is the \<open>float64\<close>
  nearest to \<open>(-1)^sign * M * 2^e\<close>. With \<open>k\<close> binary digits too many for a significand
  of 53 bits at an exponent of at least \<open>-1074\<close>, the last \<open>k\<close> digits of \<open>M\<close> are
  rounded away; a number that fits is written with the smallest exponent allowed. A
  result of magnitude \<open>2^1024\<close> or more is an infinity.
\<close>

definition finite_or_inf :: "bool \<Rightarrow> nat \<Rightarrow> int \<Rightarrow> float64" where
  "finite_or_inf sign m e = (if 971 < e then Infinity sign else Finite sign m e)"

definition f64_round :: "bool \<Rightarrow> nat \<Rightarrow> int \<Rightarrow> float64" where
  "f64_round sign M e =
     (if M = 0 then Finite sign 0 (- 1074)
      else
        let k = max (int (bitlen M) - 53) (- 1074 - e) in
        if k \<le> 0 then
          (let j = min (53 - int (bitlen M)) (e + 1074)
           in finite_or_inf sign (M * 2 ^ nat j) (e - j))
        else
          (let q = M div 2 ^ nat k;
               r = M mod 2 ^ nat k;
               half = 2 ^ (nat k - 1);
               q' = (if half < r \<or> (r = half \<and> odd q) then q + 1 else q)
           in if q' = 2 ^ 53 then finite_or_inf sign (2 ^ 52) (e + k + 1)
              else finite_or_inf sign q' (e + k)))"

text \<open>
  The zero value of the type is \<open>+0\<close>. The subtraction \<open>a - b\<close>: NaN if an operand is
  NaN or both are the same infinity; an infinity if one operand is; and for finite
  operands the exact difference, a whole multiple of \<open>2^min(e1, e2)\<close>, rounded. An exact
  difference of zero is \<open>+0\<close>, except for \<open>(-0) - (+0) = -0\<close>.
\<close>

instantiation float64 :: "{zero, minus}"
begin

definition zero_float64 :: float64 where
  "zero_float64 = Finite False 0 (- 1074)"

fun minus_float64 :: "float64 \<Rightarrow> float64 \<Rightarrow> float64" where
  "minus_float64 NaN b = NaN"
| "minus_float64 (Infinity s) NaN = NaN"
| "minus_float64 (Infinity s) (Infinity t) = (if s = t then NaN else Infinity s)"
| "minus_float64 (Infinity s) (Finite t m e) = Infinity s"
| "minus_float64 (Finite s m e) NaN = NaN"
| "minus_float64 (Finite s m e) (Infinity t) = Infinity (\<not> t)"
| "minus_float64 (Finite s1 m1 e1) (Finite s2 m2 e2) =
     (let e = min e1 e2;
          d = signed s1 m1 * 2 ^ nat (e1 - e) - signed s2 m2 * 2 ^ nat (e2 - e)
      in if d = 0 then Finite (s1 \<and> \<not> s2) 0 (- 1074)
         else f64_round (d < 0) (nat \<bar>d\<bar>) e)"

instance ..

end

text \<open>The conversions \<open>float64(x)\<close> from \<open>uint64\<close> and from \<open>int\<close>, and \<open>Float64 n\<close> for
  the \<open>float64\<close> of the whole number \<open>n\<close>.\<close>

definition float64_of_uint64 :: "64 word \<Rightarrow> float64" where
  "float64_of_uint64 x = f64_round False (unat x) 0"

definition float64_of_int :: "int \<Rightarrow> float64" where
  "float64_of_int n = f64_round (n < 0) (nat \<bar>n\<bar>) 0"

definition Float64 :: "int \<Rightarrow> float64" where
  "Float64 n = float64_of_int n"

section \<open>The state of package observability\<close>

text \<open>
  Attributes, instruments, spans and contexts belong to OpenTelemetry and the standard
  library. An instrument is known by its identity only; what the package does to an
  instrument, to a span or to the log is recorded as an effect, in order.
\<close>

datatype attr_value = StringValue string | IntValue int

type_synonym KeyValue = "string \<times> attr_value"

definition attribute_String :: "string \<Rightarrow> string \<Rightarrow> KeyValue" where
  "attribute_String k v = (k, StringValue v)"

definition attribute_Int :: "string \<Rightarrow> int \<Rightarrow> KeyValue" where
  "attribute_Int k v = (k, IntValue v)"

type_synonym instrument = nat

datatype instrument_kind = Int64Counter | Float64Histogram | Float64UpDownCounter

datatype span = NoopSpan | SDKSpan nat

datatype "context" = Background | WithCancel "context" | ContextWithSpan "context" span

text \<open>\<open>trace.SpanFromContext\<close> never returns nil: without a span in the context it
  returns the no-op span.\<close>

fun SpanFromContext :: "context \<Rightarrow> span" where
  "SpanFromContext Background = NoopSpan"
| "SpanFromContext (WithCancel parent) = SpanFromContext parent"
| "SpanFromContext (ContextWithSpan parent sp) = sp"

text \<open>Whether \<open>ctx.Done()\<close> is a channel that can ever deliver: the channel of
  \<open>context.Background()\<close> is nil, and a receive from it blocks for ever.\<close>

fun can_be_done :: "context \<Rightarrow> bool" where
  "can_be_done Background = False"
| "can_be_done (WithCancel parent) = True"
| "can_be_done (ContextWithSpan parent sp) = can_be_done parent"

datatype 'v effect =
    CounterAdd instrument "64 word" "KeyValue list"
  | HistogramRecord instrument 'v "KeyValue list"
  | UpDownCounterAdd instrument 'v "KeyValue list"
  | SpanStart nat string
  | SpanSetAttributes nat "KeyValue list"
  | SpanAddEvent nat string "KeyValue list"
  | SpanEnd nat
  | LogPrintf string

text \<open>
  A meter is the library's answer to a request for an instrument: from the number of
  requests made before, the kind, name, description and unit, an error or the
  instrument. The variables \<open>tracer\<close> and \<open>meter\<close> are interfaces; \<open>None\<close> is nil.
\<close>

datatype tracer = Tracer string

type_synonym meter =
  "nat \<Rightarrow> instrument_kind \<Rightarrow> string \<Rightarrow> string \<Rightarrow> string \<Rightarrow> string + instrument"

datatype provider = DefaultProvider | NoopProvider | SDKProvider

record 'v telemetry =
  tracer :: "tracer option"
  meter :: "meter option"
  counters :: "string \<rightharpoonup> instrument"
  histograms :: "string \<rightharpoonup> instrument"
  gauges :: "string \<rightharpoonup> instrument"
  lastKnownValues :: "string \<rightharpoonup> 'v"
  instruments_requested :: nat
  spans_started :: nat
  TracerProvider :: provider
  MeterProvider :: provider
  goroutines :: "context list"
  effects :: "'v effect list"

text \<open>The package variables as declared, before \<open>InitTelemetry\<close>.\<close>

definition initial :: "'v telemetry" where
  "initial = \<lparr>tracer = None, meter = None, counters = Map.empty, histograms = Map.empty,
     gauges = Map.empty, lastKnownValues = Map.empty, instruments_requested = 0,
     spans_started = 0, TracerProvider = DefaultProvider, MeterProvider = DefaultProvider,
     goroutines = [], effects = []\<rparr>"

definition emit :: "'v effect \<Rightarrow> 'v telemetry \<Rightarrow> 'v telemetry" where
  "emit e s = s\<lparr>effects := effects s @ [e]\<rparr>"

text \<open>A call either returns or panics; a Go \<open>error\<close> is its message.\<close>

datatype 'a outcome = Panic | Return 'a

definition quoted :: "string \<Rightarrow> string" where
  "quoted name = [CHR 0x27] @ name @ [CHR 0x27]"

section \<open>The instrument registry\<close>

text \<open>A method call on the nil interface \<open>meter\<close> panics.\<close>

definition meter_new ::
  "instrument_kind \<Rightarrow> string \<Rightarrow> string \<Rightarrow> string \<Rightarrow> 'v telemetry
     \<Rightarrow> ((string + instrument) \<times> 'v telemetry) outcome" where
  "meter_new kind name description unit s =
     (case meter s of
        None \<Rightarrow> Panic
      | Some m \<Rightarrow>
          Return (m (instruments_requested s) kind name description unit,
                  s\<lparr>instruments_requested := instruments_requested s + 1\<rparr>))"

definition CreateCounter ::
  "string \<Rightarrow> string \<Rightarrow> string \<Rightarrow> 'v telemetry \<Rightarrow> ((string + instrument) \<times> 'v telemetry) outcome" where
  "CreateCounter name description unit s =
     (case counters s name of
        Some counter \<Rightarrow> Return (Inr counter, s)
      | None \<Rightarrow>
          (case meter_new Int64Counter name description unit s of
             Panic \<Rightarrow> Panic
           | Return (Inl err, s') \<Rightarrow> Return (Inl err, s')
           | Return (Inr counter, s') \<Rightarrow>
               Return (Inr counter, s'\<lparr>counters := (counters s')(name \<mapsto> counter)\<rparr>)))"

definition CreateHistogram ::
  "string \<Rightarrow> string \<Rightarrow> string \<Rightarrow> 'v telemetry \<Rightarrow> ((string + instrument) \<times> 'v telemetry) outcome" where
  "CreateHistogram name description unit s =
     (case histograms s name of
        Some histogram \<Rightarrow> Return (Inr histogram, s)
      | None \<Rightarrow>
          (case meter_new Float64Histogram name description unit s of
             Panic \<Rightarrow> Panic
           | Return (Inl err, s') \<Rightarrow> Return (Inl err, s')
           | Return (Inr histogram, s') \<Rightarrow>
               Return (Inr histogram, s'\<lparr>histograms := (histograms s')(name \<mapsto> histogram)\<rparr>)))"

definition CreateGauge ::
  "string \<Rightarrow> string \<Rightarrow> string \<Rightarrow> 'v telemetry \<Rightarrow> ((string + instrument) \<times> 'v telemetry) outcome" where
  "CreateGauge name description unit s =
     (case gauges s name of
        Some gauge \<Rightarrow> Return (Inr gauge, s)
      | None \<Rightarrow>
          (case meter_new Float64UpDownCounter name description unit s of
             Panic \<Rightarrow> Panic
           | Return (Inl err, s') \<Rightarrow> Return (Inl err, s')
           | Return (Inr gauge, s') \<Rightarrow>
               Return (Inr gauge, s'\<lparr>gauges := (gauges s')(name \<mapsto> gauge)\<rparr>)))"

definition CreateDynamicCounter ::
  "string \<Rightarrow> string \<Rightarrow> string \<Rightarrow> 'v telemetry \<Rightarrow> ((string + instrument) \<times> 'v telemetry) outcome" where
  "CreateDynamicCounter name description unit s =
     (case counters s name of
        Some counter \<Rightarrow> Return (Inr counter, s)
      | None \<Rightarrow> CreateCounter name description unit s)"

definition IncrementCounter ::
  "context \<Rightarrow> string \<Rightarrow> 64 word \<Rightarrow> KeyValue list \<Rightarrow> 'v telemetry \<Rightarrow> 'v telemetry outcome" where
  "IncrementCounter ctx name val attrs s =
     (case CreateDynamicCounter name (''Dynamic counter for '' @ name) [] s of
        Panic \<Rightarrow> Panic
      | Return (Inl err, s') \<Rightarrow>
          Return (emit (LogPrintf (''Warning: Failed to create counter '' @ quoted name
                                     @ '': '' @ err)) s')
      | Return (Inr counter, s') \<Rightarrow> Return (emit (CounterAdd counter val attrs) s'))"

definition RecordHistogram ::
  "context \<Rightarrow> string \<Rightarrow> 'v \<Rightarrow> KeyValue list \<Rightarrow> 'v telemetry \<Rightarrow> 'v telemetry" where
  "RecordHistogram ctx name val attrs s =
     (case histograms s name of
        Some histogram \<Rightarrow> emit (HistogramRecord histogram val attrs) s
      | None \<Rightarrow> emit (LogPrintf (''Warning: Histogram '' @ quoted name @ '' not found'')) s)"

section \<open>The gauge adapter\<close>

text \<open>Reading a key that a Go map does not hold gives the zero value.\<close>

definition getGaugeValue :: "context \<Rightarrow> string \<Rightarrow> ('v::zero) telemetry \<Rightarrow> 'v" where
  "getGaugeValue ctx name s = (case lastKnownValues s name of None \<Rightarrow> 0 | Some v \<Rightarrow> v)"

definition SetGauge ::
  "context \<Rightarrow> string \<Rightarrow> 'v \<Rightarrow> KeyValue list \<Rightarrow> ('v::{zero,minus}) telemetry \<Rightarrow> 'v telemetry" where
  "SetGauge ctx name val attrs s =
     (case gauges s name of
        Some gauge \<Rightarrow>
          (let current = getGaugeValue ctx name s;
               diff = val - current;
               s' = emit (UpDownCounterAdd gauge diff attrs) s
           in s'\<lparr>lastKnownValues := (lastKnownValues s')(name \<mapsto> val)\<rparr>)
      | None \<Rightarrow> s)"

section \<open>The span facade\<close>

text \<open>A span of the SDK records what is done to it; the no-op span ignores every call.\<close>

definition tracer_Start ::
  "context \<Rightarrow> string \<Rightarrow> 'v telemetry \<Rightarrow> (context \<times> span) \<times> 'v telemetry" where
  "tracer_Start ctx name s =
     (let i = spans_started s
      in ((ContextWithSpan ctx (SDKSpan i), SDKSpan i),
          emit (SpanStart i name) (s\<lparr>spans_started := i + 1\<rparr>)))"

definition span_SetAttributes :: "span \<Rightarrow> KeyValue list \<Rightarrow> 'v telemetry \<Rightarrow> 'v telemetry" where
  "span_SetAttributes sp attrs s =
     (case sp of NoopSpan \<Rightarrow> s | SDKSpan i \<Rightarrow> emit (SpanSetAttributes i attrs) s)"

definition span_AddEvent ::
  "span \<Rightarrow> string \<Rightarrow> KeyValue list \<Rightarrow> 'v telemetry \<Rightarrow> 'v telemetry" where
  "span_AddEvent sp name attrs s =
     (case sp of NoopSpan \<Rightarrow> s | SDKSpan i \<Rightarrow> emit (SpanAddEvent i name attrs) s)"

definition span_End :: "span \<Rightarrow> 'v telemetry \<Rightarrow> 'v telemetry" where
  "span_End sp s = (case sp of NoopSpan \<Rightarrow> s | SDKSpan i \<Rightarrow> emit (SpanEnd i) s)"

definition StartSpan ::
  "context \<Rightarrow> string \<Rightarrow> 'v telemetry \<Rightarrow> (context \<times> span) \<times> 'v telemetry" where
  "StartSpan ctx name s =
     (case tracer s of
        None \<Rightarrow> ((ctx, NoopSpan), s)
      | Some t \<Rightarrow> tracer_Start ctx name s)"

definition AddEvent :: "context \<Rightarrow> string \<Rightarrow> KeyValue list \<Rightarrow> 'v telemetry \<Rightarrow> 'v telemetry" where
  "AddEvent ctx name attrs s = span_AddEvent (SpanFromContext ctx) name attrs s"

definition SetAttributes :: "context \<Rightarrow> KeyValue list \<Rightarrow> 'v telemetry \<Rightarrow> 'v telemetry" where
  "SetAttributes ctx attrs s = span_SetAttributes (SpanFromContext ctx) attrs s"

section \<open>The telemetry controller\<close>

definition metricsToCreate :: "(string \<times> string \<times> string \<times> string) list" where
  "metricsToCreate =
     [(''memory_alloc_bytes'', ''Current memory allocation in bytes'', ''bytes'', ''gauge''),
      (''memory_total_alloc_bytes'', ''Total memory allocation in bytes'', ''bytes'', ''gauge''),
      (''memory_sys_bytes'', ''System memory obtained in bytes'', ''bytes'', ''gauge''),
      (''num_goroutines'', ''Number of goroutines'', [], ''gauge''),
      (''num_cpu'', ''Number of CPUs'', [], ''gauge''),
      (''gc_runs_total'', ''Total number of completed GC cycles'', [], ''counter''),
      (''http_request_duration_seconds'', ''HTTP request duration in seconds'', ''s'',
         ''histogram''),
      (''http_requests_total'', ''Total number of HTTP requests'', [], ''counter'')]"

text \<open>The loop of \<open>createMetrics\<close>; the result is the error, \<open>None\<close> for nil.\<close>

fun createMetrics_loop ::
  "(string \<times> string \<times> string \<times> string) list \<Rightarrow> 'v telemetry
     \<Rightarrow> (string option \<times> 'v telemetry) outcome" where
  "createMetrics_loop [] s = Return (None, s)"
| "createMetrics_loop ((name, description, unit, metricType) # ms) s =
     (let created =
            (if metricType = ''counter'' then Some (CreateCounter name description unit s)
             else if metricType = ''gauge'' then Some (CreateGauge name description unit s)
             else if metricType = ''histogram'' then Some (CreateHistogram name description unit s)
             else None)
      in case created of
           None \<Rightarrow> Return (Some (''unknown metric type: '' @ metricType), s)
         | Some Panic \<Rightarrow> Panic
         | Some (Return (Inl err, s')) \<Rightarrow>
             Return (Some (''failed to create '' @ name @ '': '' @ err), s')
         | Some (Return (Inr created_instrument, s')) \<Rightarrow> createMetrics_loop ms s')"

definition createMetrics :: "'v telemetry \<Rightarrow> (string option \<times> 'v telemetry) outcome" where
  "createMetrics s = createMetrics_loop metricsToCreate s"

text \<open>
  What the libraries answer while \<open>InitTelemetry\<close> builds the pipeline: the errors of
  the three constructors (\<open>None\<close> for nil) and the tracer and meter of the providers.
\<close>

record otel =
  resource_New :: "string option"
  otlptracehttp_New :: "string option"
  otlpmetrichttp_New :: "string option"
  tp_Tracer :: tracer
  mp_Meter :: meter

datatype ObservabilityShutdownFunc = NoopShutdown | ProvidersShutdown

definition InitTelemetry ::
  "string \<Rightarrow> string \<Rightarrow> string \<Rightarrow> bool \<Rightarrow> 'v \<Rightarrow> bool \<Rightarrow> otel \<Rightarrow> 'v telemetry
     \<Rightarrow> ((string + ObservabilityShutdownFunc) \<times> 'v telemetry) outcome" where
  "InitTelemetry serviceName tracingEndpoint metricEndpoint isInsecure ratioTrace
       enableTelemetry lib s =
     (if \<not> enableTelemetry
      then Return (Inr NoopShutdown,
                   s\<lparr>TracerProvider := NoopProvider, MeterProvider := NoopProvider\<rparr>)
      else case resource_New lib of
        Some err \<Rightarrow> Return (Inl (''failed to create resource: '' @ err), s)
      | None \<Rightarrow>
        (case otlptracehttp_New lib of
           Some err \<Rightarrow> Return (Inl (''failed to create trace exporter: '' @ err), s)
         | None \<Rightarrow>
           (let s1 = s\<lparr>TracerProvider := SDKProvider, tracer := Some (tp_Tracer lib)\<rparr>
            in case otlpmetrichttp_New lib of
                 Some err \<Rightarrow> Return (Inl (''failed to create metric exporter: '' @ err), s1)
               | None \<Rightarrow>
                 (let s2 = s1\<lparr>MeterProvider := SDKProvider, meter := Some (mp_Meter lib)\<rparr>
                  in case createMetrics s2 of
                       Panic \<Rightarrow> Panic
                     | Return (Some err, s3) \<Rightarrow>
                         Return (Inl (''failed to create metrics: '' @ err), s3)
                     | Return (None, s3) \<Rightarrow>
                         Return (Inr ProvidersShutdown,
                                 s3\<lparr>goroutines := goroutines s3 @ [Background]\<rparr>)))))"

text \<open>
  The function that \<open>InitTelemetry\<close> returns. With telemetry enabled it shuts the two
  providers down, under a context of its own with a timeout of five seconds, and logs
  their errors, given here (\<open>None\<close> for nil); it holds neither the sampler nor the
  context the sampler runs under.
\<close>

definition call_shutdown ::
  "ObservabilityShutdownFunc \<Rightarrow> string option \<Rightarrow> string option \<Rightarrow> 'v telemetry \<Rightarrow> 'v telemetry" where
  "call_shutdown f tp_Shutdown mp_Shutdown s =
     (case f of
        NoopShutdown \<Rightarrow> s
      | ProvidersShutdown \<Rightarrow>
          (let s1 = (case tp_Shutdown of
                       Some err \<Rightarrow> emit (LogPrintf (''Error shutting down tracer provider: '' @ err)) s
                     | None \<Rightarrow> s)
           in case mp_Shutdown of
                Some err \<Rightarrow> emit (LogPrintf (''Error shutting down meter provider: '' @ err)) s1
              | None \<Rightarrow> s1))"

section \<open>The system sampler\<close>

text \<open>What the runtime reports at a tick.\<close>

record runtime =
  Alloc :: "64 word"
  TotalAlloc :: "64 word"
  Sys :: "64 word"
  NumGC :: "32 word"
  NumGoroutine :: int
  NumCPU :: int

text \<open>
  The loop of \<open>updateSystemMetrics\<close> waits in its \<open>select\<close> with the ticker running and
  \<open>lastNumGC\<close> in hand, until one case fires. After the return the deferred
  \<open>ticker.Stop()\<close> has run; a panic in the body ends the goroutine as well.
\<close>

datatype select_case = ctx_Done | ticker_C runtime

datatype loop = Selecting "32 word" | Returned | Crashed

fun ticker_running :: "loop \<Rightarrow> bool" where
  "ticker_running (Selecting lastNumGC) = True"
| "ticker_running Returned = False"
| "ticker_running Crashed = False"

definition tick ::
  "context \<Rightarrow> runtime \<Rightarrow> 32 word \<Rightarrow> float64 telemetry \<Rightarrow> loop \<times> float64 telemetry" where
  "tick ctx m lastNumGC s =
     (let s1 = SetGauge ctx ''memory_alloc_bytes'' (float64_of_uint64 (Alloc m)) [] s;
          s2 = SetGauge ctx ''memory_total_alloc_bytes'' (float64_of_uint64 (TotalAlloc m)) [] s1;
          s3 = SetGauge ctx ''memory_sys_bytes'' (float64_of_uint64 (Sys m)) [] s2;
          s4 = SetGauge ctx ''num_goroutines'' (float64_of_int (NumGoroutine m)) [] s3;
          s5 = SetGauge ctx ''num_cpu'' (float64_of_int (NumCPU m)) [] s4;
          gcRuns = NumGC m - lastNumGC
      in if 0 < gcRuns
         then (case IncrementCounter ctx ''gc_runs_total'' (ucast gcRuns) [] s5 of
                 Panic \<Rightarrow> (Crashed, s5)
               | Return s6 \<Rightarrow> (Selecting (NumGC m), s6))
         else (Selecting lastNumGC, s5))"

text \<open>One turn of the loop; \<open>None\<close> when the case cannot fire in this state.\<close>

fun updateSystemMetrics_step ::
  "context \<Rightarrow> select_case \<Rightarrow> loop \<times> float64 telemetry \<Rightarrow> (loop \<times> float64 telemetry) option" where
  "updateSystemMetrics_step ctx ctx_Done (Selecting lastNumGC, s) =
     (if can_be_done ctx then Some (Returned, s) else None)"
| "updateSystemMetrics_step ctx (ticker_C m) (Selecting lastNumGC, s) =
     Some (tick ctx m lastNumGC s)"
| "updateSystemMetrics_step ctx c (Returned, s) = None"
| "updateSystemMetrics_step ctx c (Crashed, s) = None"

fun updateSystemMetrics_run ::
  "context \<Rightarrow> select_case list \<Rightarrow> loop \<times> float64 telemetry \<Rightarrow> (loop \<times> float64 telemetry) option" where
  "updateSystemMetrics_run ctx [] st = Some st"
| "updateSystemMetrics_run ctx (c # cs) st =
     (case updateSystemMetrics_step ctx c st of
        None \<Rightarrow> None
      | Some st' \<Rightarrow> updateSystemMetrics_run ctx cs st')"

definition updateSystemMetrics ::
  "context \<Rightarrow> select_case list \<Rightarrow> float64 telemetry \<Rightarrow> (loop \<times> float64 telemetry) option" where
  "updateSystemMetrics ctx cs s = updateSystemMetrics_run ctx cs (Selecting 0, s)"

section \<open>The request middleware\<close>

record Request =
  Method :: string
  URL_String :: string
  URL_Path :: string
  Host :: string
  UserAgent :: string
  Context :: "context"

text \<open>
  A handler is known by the calls it makes on its response writer before it returns.
  The underlying writer is the list of calls it has received. \<open>customResponseWriter\<close>
  overrides \<open>WriteHeader\<close>; \<open>Write\<close> is the promoted method of the embedded writer.
\<close>

datatype writer_call = WriteHeader int | Write string

type_synonym Handler = "Request \<Rightarrow> writer_call list"

record customResponseWriter =
  ResponseWriter :: "writer_call list"
  statusCode :: int

fun crw_call :: "customResponseWriter \<Rightarrow> writer_call \<Rightarrow> customResponseWriter" where
  "crw_call crw (WriteHeader code) =
     crw\<lparr>statusCode := code, ResponseWriter := ResponseWriter crw @ [WriteHeader code]\<rparr>"
| "crw_call crw (Write body) =
     crw\<lparr>ResponseWriter := ResponseWriter crw @ [Write body]\<rparr>"

definition ServeHTTP :: "Handler \<Rightarrow> customResponseWriter \<Rightarrow> Request \<Rightarrow> customResponseWriter" where
  "ServeHTTP next crw r = foldl crw_call crw (next r)"

definition StatusOK :: int where
  "StatusOK = 200"

text \<open>
  \<open>seconds\<close> is \<open>duration.Seconds()\<close>, read from the clock. The result is the
  underlying writer after the request.
\<close>

definition TraceMiddleware ::
  "Handler \<Rightarrow> writer_call list \<Rightarrow> Request \<Rightarrow> 'v \<Rightarrow> 'v telemetry
     \<Rightarrow> (writer_call list \<times> 'v telemetry) outcome" where
  "TraceMiddleware next w r seconds s =
     (let ((ctx, sp), s1) = StartSpan (Context r) ''http_request'' s;
          method = Method r;
          path = URL_Path r;
          s2 = span_SetAttributes sp
                 [attribute_String ''http.method'' method,
                  attribute_String ''http.url'' (URL_String r),
                  attribute_String ''http.path'' path,
                  attribute_String ''http.host'' (Host r),
                  attribute_String ''http.user_agent'' (UserAgent r)] s1;
          crw = \<lparr>ResponseWriter = w, statusCode = StatusOK\<rparr>;
          crw' = ServeHTTP next crw (r\<lparr>Context := ctx\<rparr>);
          s3 = span_SetAttributes sp [attribute_Int ''http.status_code'' (statusCode crw')] s2;
          labels = [attribute_String ''method'' method,
                    attribute_String ''path'' path,
                    attribute_Int ''status'' (statusCode crw')];
          s4 = RecordHistogram ctx ''http_request_duration_seconds'' seconds labels s3
      in case IncrementCounter ctx ''http_requests_total'' 1 labels s4 of
           Panic \<Rightarrow> Panic
         | Return s5 \<Rightarrow>
             (case IncrementCounter ctx (methodPathCounter method path) 1
                     [attribute_Int ''status'' (statusCode crw')] s5 of
                Panic \<Rightarrow> Panic
              | Return s6 \<Rightarrow> Return (ResponseWriter crw', span_End sp s6)))"

section \<open>Sequences of calls\<close>

datatype 'v call =
    Call_StartSpan "context" string
  | Call_AddEvent "context" string "KeyValue list"
  | Call_SetAttributes "context" "KeyValue list"
  | Call_CreateCounter string string string
  | Call_CreateHistogram string string string
  | Call_CreateGauge string string string
  | Call_CreateDynamicCounter string string string
  | Call_IncrementCounter "context" string "64 word" "KeyValue list"
  | Call_RecordHistogram "context" string 'v "KeyValue list"
  | Call_SetGauge "context" string 'v "KeyValue list"

text \<open>The state after a call of the package; the values returned are dropped.\<close>

definition dropping :: "('a \<times> 's) outcome \<Rightarrow> 's outcome" where
  "dropping r = (case r of Panic \<Rightarrow> Panic | Return (x, s) \<Rightarrow> Return s)"

fun run_call :: "('v::{zero,minus}) call \<Rightarrow> 'v telemetry \<Rightarrow> 'v telemetry outcome" where
  "run_call (Call_StartSpan ctx name) s = Return (snd (StartSpan ctx name s))"
| "run_call (Call_AddEvent ctx name attrs) s = Return (AddEvent ctx name attrs s)"
| "run_call (Call_SetAttributes ctx attrs) s = Return (SetAttributes ctx attrs s)"
| "run_call (Call_CreateCounter name description unit) s =
     dropping (CreateCounter name description unit s)"
| "run_call (Call_CreateHistogram name description unit) s =
     dropping (CreateHistogram name description unit s)"
| "run_call (Call_CreateGauge name description unit) s =
     dropping (CreateGauge name description unit s)"
| "run_call (Call_CreateDynamicCounter name description unit) s =
     dropping (CreateDynamicCounter name description unit s)"
| "run_call (Call_IncrementCounter ctx name val attrs) s = IncrementCounter ctx name val attrs s"
| "run_call (Call_RecordHistogram ctx name val attrs) s =
     Return (RecordHistogram ctx name val attrs s)"
| "run_call (Call_SetGauge ctx name val attrs) s = Return (SetGauge ctx name val attrs s)"

fun run_calls :: "('v::{zero,minus}) call list \<Rightarrow> 'v telemetry \<Rightarrow> 'v telemetry outcome" where
  "run_calls [] s = Return s"
| "run_calls (c # cs) s =
     (case run_call c s of Panic \<Rightarrow> Panic | Return s' \<Rightarrow> run_calls cs s')"

text \<open>The three get-or-create operations, by the kind of instrument.\<close>

definition get_or_create ::
  "instrument_kind \<Rightarrow> string \<Rightarrow> string \<Rightarrow> string \<Rightarrow> 'v telemetry
     \<Rightarrow> ((string + instrument) \<times> 'v telemetry) outcome" where
  "get_or_create kind name description unit s =
     (case kind of
        Int64Counter \<Rightarrow> CreateCounter name description unit s
      | Float64Histogram \<Rightarrow> CreateHistogram name description unit s
      | Float64UpDownCounter \<Rightarrow> CreateGauge name description unit s)"

text \<open>Every binding of the three maps of \<open>s\<close> is a binding of \<open>s'\<close>.\<close>

definition registry_le :: "'v telemetry \<Rightarrow> 'v telemetry \<Rightarrow> bool" where
  "registry_le s s' =
     (counters s \<subseteq>\<^sub>m counters s' \<and> histograms s \<subseteq>\<^sub>m histograms s' \<and> gauges s \<subseteq>\<^sub>m gauges s')"

section \<open>Observations on the effects\<close>

text \<open>The effects a call adds to the ones recorded before it.\<close>

definition new_effects :: "'v telemetry \<Rightarrow> 'v telemetry \<Rightarrow> 'v effect list" where
  "new_effects s s' = drop (length (effects s)) (effects s')"

fun is_HistogramRecord :: "'v effect \<Rightarrow> bool" where
  "is_HistogramRecord (HistogramRecord i v attrs) = True"
| "is_HistogramRecord e = False"

fun is_CounterAdd :: "'v effect \<Rightarrow> bool" where
  "is_CounterAdd (CounterAdd i v attrs) = True"
| "is_CounterAdd e = False"

fun is_LogPrintf :: "'v effect \<Rightarrow> bool" where
  "is_LogPrintf (LogPrintf line) = True"
| "is_LogPrintf e = False"

fun is_span_effect :: "'v effect \<Rightarrow> bool" where
  "is_span_effect (SpanStart i name) = True"
| "is_span_effect (SpanSetAttributes i attrs) = True"
| "is_span_effect (SpanAddEvent i name attrs) = True"
| "is_span_effect (SpanEnd i) = True"
| "is_span_effect e = False"

definition histogram_records :: "'v effect list \<Rightarrow> 'v effect list" where
  "histogram_records es = filter is_HistogramRecord es"

definition counter_adds :: "'v effect list \<Rightarrow> 'v effect list" where
  "counter_adds es = filter is_CounterAdd es"

text \<open>The deltas added to one up-down counter, in order.\<close>

fun gauge_deltas :: "instrument \<Rightarrow> 'v effect list \<Rightarrow> 'v list" where
  "gauge_deltas g [] = []"
| "gauge_deltas g (UpDownCounterAdd i d attrs # es) =
     (if i = g then d # gauge_deltas g es else gauge_deltas g es)"
| "gauge_deltas g (e # es) = gauge_deltas g es"

text \<open>\<open>SetGauge(ctx, name, v1, attrs1); ...; SetGauge(ctx, name, vk, attrsk)\<close>.\<close>

fun SetGauge_seq ::
  "context \<Rightarrow> string \<Rightarrow> ('v \<times> KeyValue list) list \<Rightarrow> ('v::{zero,minus}) telemetry \<Rightarrow> 'v telemetry" where
  "SetGauge_seq ctx name [] s = s"
| "SetGauge_seq ctx name ((v, attrs) # vs) s = SetGauge_seq ctx name vs (SetGauge ctx name v attrs s)"

text \<open>The differences \<open>value - current\<close> of such a sequence, \<open>prev\<close> being the value
  set before.\<close>

fun set_deltas :: "('v::minus) \<Rightarrow> ('v \<times> KeyValue list) list \<Rightarrow> 'v list" where
  "set_deltas prev [] = []"
| "set_deltas prev ((v, attrs) # vs) = (v - prev) # set_deltas v vs"

text \<open>Every value of the sequence is a finite \<open>float64\<close> and every subtraction
  \<open>value - current\<close> that \<open>SetGauge\<close> performs is exact: its result is finite and is
  the difference of the two numbers. \<open>prev\<close> is the value set before.\<close>

fun exact_diffs :: "float64 \<Rightarrow> (float64 \<times> KeyValue list) list \<Rightarrow> bool" where
  "exact_diffs prev [] = True"
| "exact_diffs prev ((v, attrs) # vs) =
     (is_float64 v \<and> is_finite v \<and> is_finite (v - prev)
      \<and> f64_units (v - prev) = f64_units v - f64_units prev \<and> exact_diffs v vs)"

text \<open>The status codes a handler passes to \<open>WriteHeader\<close>, in order.\<close>

fun header_codes :: "writer_call list \<Rightarrow> int list" where
  "header_codes [] = []"
| "header_codes (WriteHeader code # cs) = code # header_codes cs"
| "header_codes (Write body # cs) = header_codes cs"

section \<open>Example states\<close>

text \<open>
  A meter that, as the SDK does, refuses an empty name and a name of more than 255
  bytes, and otherwise hands out a new instrument; and libraries that build the
  pipeline without error.
\<close>

definition checking_meter :: meter where
  "checking_meter i kind name description unit =
     (if name = [] \<or> 255 < length name then Inl ''invalid instrument name'' else Inr i)"

definition lib_ok :: otel where
  "lib_ok = \<lparr>resource_New = None, otlptracehttp_New = None, otlpmetrichttp_New = None,
              tp_Tracer = Tracer ''application-tracer'', mp_Meter = checking_meter\<rparr>"

text \<open>The state \<open>InitTelemetry\<close> leaves with telemetry enabled, and with it disabled.\<close>

definition running :: "float64 telemetry" where
  "running = \<lparr>tracer = Some (Tracer ''application-tracer''), meter = Some checking_meter,
     counters = [''gc_runs_total'' \<mapsto> 5, ''http_requests_total'' \<mapsto> 7],
     histograms = [''http_request_duration_seconds'' \<mapsto> 6],
     gauges = [''memory_alloc_bytes'' \<mapsto> 0, ''memory_total_alloc_bytes'' \<mapsto> 1,
               ''memory_sys_bytes'' \<mapsto> 2, ''num_goroutines'' \<mapsto> 3, ''num_cpu'' \<mapsto> 4],
     lastKnownValues = Map.empty, instruments_requested = 8, spans_started = 0,
     TracerProvider = SDKProvider, MeterProvider = SDKProvider,
     goroutines = [Background], effects = []\<rparr>"

definition disabled :: "float64 telemetry" where
  "disabled = initial\<lparr>TracerProvider := NoopProvider, MeterProvider := NoopProvider\<rparr>"

text \<open>The running state after \<open>CreateGauge("queue_depth", ...)\<close>, and after a following
  \<open>SetGauge(ctx, "queue_depth", 3)\<close> and \<open>IncrementCounter(ctx, "jobs_total", 1)\<close>.\<close>

definition with_queue_gauge :: "float64 telemetry" where
  "with_queue_gauge =
     running\<lparr>instruments_requested := 9, gauges := (gauges running)(''queue_depth'' \<mapsto> 8)\<rparr>"

definition with_queue_gauge_used :: "float64 telemetry" where
  "with_queue_gauge_used =
     running\<lparr>instruments_requested := 10,
              gauges := (gauges running)(''queue_depth'' \<mapsto> 8),
              counters := (counters running)(''jobs_total'' \<mapsto> 9),
              lastKnownValues := [''queue_depth'' \<mapsto> Float64 3],
              effects := [UpDownCounterAdd 8 (Float64 3) [], CounterAdd 9 1 []]\<rparr>"

text \<open>The running state after \<open>CreateGauge("queue_depth", ...)\<close> and
  \<open>IncrementCounter(ctx, "queue_depth", 1)\<close>.\<close>

definition with_queue_gauge_and_counter :: "float64 telemetry" where
  "with_queue_gauge_and_counter =
     running\<lparr>instruments_requested := 10,
              gauges := (gauges running)(''queue_depth'' \<mapsto> 8),
              counters := (counters running)(''queue_depth'' \<mapsto> 9),
              effects := [CounterAdd 9 1 []]\<rparr>"

definition example_reading :: runtime where
  "example_reading = \<lparr>Alloc = 4194304, TotalAlloc = 8388608, Sys = 16777216, NumGC = 2,
                       NumGoroutine = 9, NumCPU = 8\<rparr>"

definition healthcheck_request :: Request where
  "healthcheck_request =
     \<lparr>Method = ''GET'', URL_String = ''/v1/healthcheck'', URL_Path = ''/v1/healthcheck'',
      Host = ''localhost:4000'', UserAgent = ''curl/8.5.0'', Context = WithCancel Background\<rparr>"

definition long_path_request :: Request where
  "long_path_request =
     \<lparr>Method = ''GET'', URL_String = CHR ''/'' # replicate 255 CHR ''a'',
      URL_Path = CHR ''/'' # replicate 255 CHR ''a'',
      Host = ''localhost:4000'', UserAgent = ''curl/8.5.0'', Context = WithCancel Background\<rparr>"

text \<open>Handlers: one that only writes a body, one that answers 404, one that calls
  \<open>WriteHeader\<close> twice, and one that calls it after the body.\<close>

definition handler_body_only :: Handler where
  "handler_body_only r = [Write ''ok'']"

definition handler_404 :: Handler where
  "handler_404 r = [WriteHeader 404, Write ''not found'']"

definition handler_404_then_500 :: Handler where
  "handler_404_then_500 r = [WriteHeader 404, WriteHeader 500]"

definition handler_body_then_500 :: Handler where
  "handler_body_then_500 r = [Write ''ok'', WriteHeader 500]"

text \<open>The running state after one request to \<open>/v1/healthcheck\<close>, answered by each of
  the handlers, and after the request with the long path.\<close>

definition healthcheck_span_attributes :: "KeyValue list" where
  "healthcheck_span_attributes =
     [attribute_String ''http.method'' ''GET'',
      attribute_String ''http.url'' ''/v1/healthcheck'',
      attribute_String ''http.path'' ''/v1/healthcheck'',
      attribute_String ''http.host'' ''localhost:4000'',
      attribute_String ''http.user_agent'' ''curl/8.5.0'']"

definition healthcheck_labels :: "int \<Rightarrow> KeyValue list" where
  "healthcheck_labels status =
     [attribute_String ''method'' ''GET'', attribute_String ''path'' ''/v1/healthcheck'',
      attribute_Int ''status'' status]"

definition after_healthcheck :: "int \<Rightarrow> float64 telemetry" where
  "after_healthcheck status =
     running\<lparr>spans_started := 1, instruments_requested := 9,
       counters := (counters running)(''http_requests_get__v1_healthcheck'' \<mapsto> 8),
       effects :=
         [SpanStart 0 ''http_request'',
          SpanSetAttributes 0 healthcheck_span_attributes,
          SpanSetAttributes 0 [attribute_Int ''http.status_code'' status],
          HistogramRecord 6 (Float64 0) (healthcheck_labels status),
          CounterAdd 7 1 (healthcheck_labels status),
          CounterAdd 8 1 [attribute_Int ''status'' status],
          SpanEnd 0]\<rparr>"

definition long_path_labels :: "KeyValue list" where
  "long_path_labels =
     [attribute_String ''method'' ''GET'',
      attribute_String ''path'' (CHR ''/'' # replicate 255 CHR ''a''),
      attribute_Int ''status'' 200]"

definition after_long_path :: "float64 telemetry" where
  "after_long_path =
     running\<lparr>spans_started := 1, instruments_requested := 9,
       effects :=
         [SpanStart 0 ''http_request'',
          SpanSetAttributes 0
            [attribute_String ''http.method'' ''GET'',
             attribute_String ''http.url'' (CHR ''/'' # replicate 255 CHR ''a''),
             attribute_String ''http.path'' (CHR ''/'' # replicate 255 CHR ''a''),
             attribute_String ''http.host'' ''localhost:4000'',
             attribute_String ''http.user_agent'' ''curl/8.5.0''],
          SpanSetAttributes 0 [attribute_Int ''http.status_code'' 200],
          HistogramRecord 6 (Float64 0) long_path_labels,
          CounterAdd 7 1 long_path_labels,
          LogPrintf (''Warning: Failed to create counter ''
                       @ quoted (''http_requests_get__'' @ replicate 255 CHR ''a'')
                       @ '': invalid instrument name''),
          SpanEnd 0]\<rparr>"

section \<open>Properties of \<open>sanitizePath\<close>\<close>

lemma char_of_filler: "char_of (95::int) = CHR ''_''"
  by code_simp

lemma sanitize_rune_range: "0 \<le> sanitize_rune r \<and> sanitize_rune r < RuneSelf"
  by (simp add: sanitize_rune_def RuneSelf_def)

lemma sanitizePath_unfold:
  "sanitizePath s =
     (if s = [] then []
      else char_of (sanitize_rune (fst (DecodeRuneInString s)))
             # sanitizePath (drop (snd (DecodeRuneInString s)) s))"
  unfolding sanitizePath_def
  by (subst strings_Map.simps) (simp add: Let_def sanitize_rune_range)

text \<open>The sanitized path has one byte for every rune of the path.\<close>

lemma sanitizePath_runes: "sanitizePath s = map (\<lambda>r. char_of (sanitize_rune r)) (runes s)"
proof (induction s rule: runes.induct)
  case (1 s)
  show ?case
  proof (cases "s = []")
    case True
    then show ?thesis by (simp add: sanitizePath_unfold runes.simps)
  next
    case False
    then show ?thesis
      using 1 by (subst sanitizePath_unfold, subst runes.simps) simp
  qed
qed

lemma is_alnum_or_filler_sanitize: "is_alnum_or_filler (char_of (sanitize_rune r))"
  by (auto simp add: sanitize_rune_def is_alnum_or_filler_def Let_def char_of_filler)

lemma list_all_sanitizePath: "list_all is_alnum_or_filler (sanitizePath p)"
  by (simp add: sanitizePath_runes list_all_iff is_alnum_or_filler_sanitize)

lemma length_sanitizePath: "length (sanitizePath p) = RuneCountInString p"
  by (simp add: sanitizePath_runes RuneCountInString_def)

lemma is_alnum_or_filler_ascii: "is_alnum_or_filler c \<Longrightarrow> (of_char c :: int) < 0x80"
  by (auto simp add: is_alnum_or_filler_def Let_def)

lemma sanitize_rune_fixed: "is_alnum_or_filler c \<Longrightarrow> char_of (sanitize_rune (of_char c)) = c"
  by (auto simp add: is_alnum_or_filler_def sanitize_rune_def Let_def char_of_filler)

lemma DecodeRuneInString_ascii:
  "(of_char c :: int) < 0x80 \<Longrightarrow> DecodeRuneInString (c # rest) = (of_char c, 1)"
  by (simp add: RuneSelf_def)

lemma runes_ascii: "is_ascii s \<Longrightarrow> runes s = map of_char s"
proof (induction s)
  case Nil
  show ?case by (simp add: runes.simps)
next
  case (Cons c s)
  then show ?case
    by (subst runes.simps)
       (simp add: is_ascii_def DecodeRuneInString_ascii del: DecodeRuneInString.simps)
qed

lemma sanitizePath_fixed:
  assumes "list_all is_alnum_or_filler s"
  shows "sanitizePath s = s"
proof -
  have "is_ascii s"
    using assms by (simp add: is_ascii_def list_all_iff is_alnum_or_filler_ascii)
  then have "runes s = map of_char s" by (rule runes_ascii)
  then have "sanitizePath s = map (\<lambda>c. char_of (sanitize_rune (of_char c))) s"
    by (simp add: sanitizePath_runes comp_def)
  also have "\<dots> = s" using assms by (induction s) (simp_all add: sanitize_rune_fixed)
  finally show ?thesis .
qed

text \<open>
  C10. \<open>sanitizePath\<close> is idempotent; every byte of its result is an ASCII letter, an
  ASCII digit or the underscore; and the result has as many characters as the path,
  a character being a rune as \<open>strings.Map\<close> reads it (so the result has one byte for
  each rune of the path, and as many runes).
\<close>

theorem sanitizePath_idempotent_alnum_length:
  "sanitizePath (sanitizePath p) = sanitizePath p
   \<and> list_all is_alnum_or_filler (sanitizePath p)
   \<and> length (sanitizePath p) = RuneCountInString p
   \<and> RuneCountInString (sanitizePath p) = RuneCountInString p"
proof -
  have ok: "list_all is_alnum_or_filler (sanitizePath p)"
    by (rule list_all_sanitizePath)
  have idem: "sanitizePath (sanitizePath p) = sanitizePath p"
    using ok by (rule sanitizePath_fixed)
  have len: "length (sanitizePath p) = RuneCountInString p"
    by (rule length_sanitizePath)
  have "RuneCountInString (sanitizePath p) = length (sanitizePath (sanitizePath p))"
    by (simp add: length_sanitizePath)
  then have "RuneCountInString (sanitizePath p) = RuneCountInString p"
    by (simp add: idem len)
  with ok idem len show ?thesis by simp
qed

section \<open>Computing with float64\<close>

text \<open>The number of binary digits of a numeral, digit by digit.\<close>

lemma bitlen_0: "bitlen 0 = 0"
  by (simp add: bitlen.simps)

lemma bitlen_1: "bitlen 1 = 1" "bitlen (Suc 0) = 1" "bitlen (numeral Num.One) = 1"
  by (simp_all add: bitlen.simps)

lemma bitlen_Bit0: "bitlen (numeral (Num.Bit0 n)) = Suc (bitlen (numeral n))"
  by (subst bitlen.simps) simp

lemma bitlen_Bit1: "bitlen (numeral (Num.Bit1 n)) = Suc (bitlen (numeral n))"
proof -
  have "(numeral (Num.Bit1 n) :: nat) div 2 = numeral n"
    by (simp add: numeral_Bit1_div_2)
  then show ?thesis by (subst bitlen.simps) simp
qed

lemmas f64_eval = Float64_def float64_of_int_def float64_of_uint64_def f64_round_def
  finite_or_inf_def bitlen_0 bitlen_1 bitlen_Bit0 bitlen_Bit1 Let_def zero_float64_def
  signed_def

text \<open>Whole numbers as \<open>float64\<close>: \<open>2^54 + 1\<close> is rounded to \<open>2^54\<close>, and \<open>2^1024\<close> to
  \<open>+Inf\<close>.\<close>

lemma Float64_examples:
  "Float64 0 = Finite False 0 (- 1074)"
  "Float64 1 = Finite False (2 ^ 52) (- 52)"
  "Float64 3 = Finite False (3 * 2 ^ 51) (- 51)"
  "Float64 18014398509481984 = Finite False (2 ^ 52) 2"
  "Float64 18014398509481985 = Finite False (2 ^ 52) 2"
  "Float64 (- 18014398509481984) = Finite True (2 ^ 52) 2"
  "Float64 (2 ^ 1024) = Infinity False"
  by (simp_all add: f64_eval)

lemma Float64_0: "Float64 0 = 0"
  by (simp add: f64_eval)

lemma f64_units_zero: "f64_units 0 = 0"
  by (simp add: zero_float64_def signed_def)

text \<open>
  Subtractions: the difference \<open>1 - 2^54\<close> is rounded to \<open>-2^54\<close>; the difference of the
  largest finite \<open>float64\<close> and its negation is \<open>+Inf\<close>; a difference with an infinity
  is an infinity or NaN; and the differences of the smallest positive \<open>float64\<close> are
  exact.
\<close>

lemma minus_float64_examples:
  "Float64 3 - 0 = Float64 3"
  "Float64 1 - Float64 18014398509481984 = Float64 (- 18014398509481984)"
  "Float64 18014398509481984 - 0 = Float64 18014398509481984"
  "Finite False (2 ^ 53 - 1) 971 - Finite True (2 ^ 53 - 1) 971 = Infinity False"
  "Infinity False - 0 = Infinity False"
  "Float64 1 - Infinity False = Infinity True"
  "Infinity False - Infinity False = NaN"
  "Finite False 1 (- 1074) - Finite False 2 (- 1074) = Finite True 1 (- 1074)"
  "Float64 1 - Float64 1 = Finite False 0 (- 1074)"
  "Finite True 0 (- 1074) - 0 = Finite True 0 (- 1074)"
  by (simp_all add: f64_eval)

section \<open>The controller reaches the example states\<close>

lemma InitTelemetry_enabled_running:
  "InitTelemetry serviceName tracingEndpoint metricEndpoint isInsecure ratioTrace True lib_ok initial
     = Return (Inr ProvidersShutdown, running)"
  by (simp add: InitTelemetry_def lib_ok_def initial_def running_def createMetrics_def
        metricsToCreate_def CreateCounter_def CreateGauge_def CreateHistogram_def meter_new_def
        checking_meter_def del: One_nat_def)

lemma InitTelemetry_disabled:
  "InitTelemetry serviceName tracingEndpoint metricEndpoint isInsecure ratioTrace False lib initial
     = Return (Inr NoopShutdown, disabled)"
  by (simp add: InitTelemetry_def disabled_def)

section \<open>The registry only grows\<close>

lemma registry_le_refl: "registry_le s s"
  by (simp add: registry_le_def)

lemma registry_le_trans: "registry_le s t \<Longrightarrow> registry_le t u \<Longrightarrow> registry_le s u"
  unfolding registry_le_def by (blast intro: map_le_trans)

lemma registry_le_emit: "registry_le s (emit e s)"
  by (simp add: registry_le_def emit_def)

lemma meter_new_registry:
  "meter_new kind name description unit s = Return (r, s') \<Longrightarrow>
     counters s' = counters s \<and> histograms s' = histograms s \<and> gauges s' = gauges s
     \<and> lastKnownValues s' = lastKnownValues s \<and> effects s' = effects s \<and> meter s' = meter s"
  by (auto simp: meter_new_def split: option.splits)

lemma CreateCounter_le:
  "CreateCounter name description unit s = Return (r, s') \<Longrightarrow> registry_le s s'"
  by (auto simp: CreateCounter_def registry_le_def map_le_def
           split: option.splits outcome.splits sum.splits prod.splits
           dest!: meter_new_registry)

lemma CreateHistogram_le:
  "CreateHistogram name description unit s = Return (r, s') \<Longrightarrow> registry_le s s'"
  by (auto simp: CreateHistogram_def registry_le_def map_le_def
           split: option.splits outcome.splits sum.splits prod.splits
           dest!: meter_new_registry)

lemma CreateGauge_le:
  "CreateGauge name description unit s = Return (r, s') \<Longrightarrow> registry_le s s'"
  by (auto simp: CreateGauge_def registry_le_def map_le_def
           split: option.splits outcome.splits sum.splits prod.splits
           dest!: meter_new_registry)

lemma CreateDynamicCounter_le:
  "CreateDynamicCounter name description unit s = Return (r, s') \<Longrightarrow> registry_le s s'"
  by (auto simp: CreateDynamicCounter_def registry_le_refl CreateCounter_le split: option.splits)

lemma IncrementCounter_le:
  "IncrementCounter ctx name val attrs s = Return s' \<Longrightarrow> registry_le s s'"
  by (auto simp: IncrementCounter_def split: outcome.splits sum.splits prod.splits
           dest!: CreateDynamicCounter_le intro: registry_le_trans registry_le_emit)

lemma RecordHistogram_le: "registry_le s (RecordHistogram ctx name val attrs s)"
  by (simp add: RecordHistogram_def registry_le_emit split: option.splits)

lemma SetGauge_le: "registry_le s (SetGauge ctx name val attrs s)"
  by (simp add: SetGauge_def registry_le_def emit_def Let_def split: option.splits)

lemma StartSpan_le: "registry_le s (snd (StartSpan ctx name s))"
  by (simp add: StartSpan_def tracer_Start_def registry_le_def emit_def Let_def
           split: option.splits)

lemma AddEvent_le: "registry_le s (AddEvent ctx name attrs s)"
  by (simp add: AddEvent_def span_AddEvent_def registry_le_emit registry_le_refl
           split: span.splits)

lemma SetAttributes_le: "registry_le s (SetAttributes ctx attrs s)"
  by (simp add: SetAttributes_def span_SetAttributes_def registry_le_emit registry_le_refl
           split: span.splits)

lemma run_call_le:
  assumes "run_call c s = Return s'"
  shows "registry_le s s'"
proof (cases c)
  case (Call_StartSpan ctx name)
  with assms show ?thesis using StartSpan_le by auto
next
  case (Call_AddEvent ctx name attrs)
  with assms show ?thesis using AddEvent_le by auto
next
  case (Call_SetAttributes ctx attrs)
  with assms show ?thesis using SetAttributes_le by auto
next
  case (Call_CreateCounter name description unit)
  with assms show ?thesis
    by (auto simp: dropping_def split: outcome.splits prod.splits dest: CreateCounter_le)
next
  case (Call_CreateHistogram name description unit)
  with assms show ?thesis
    by (auto simp: dropping_def split: outcome.splits prod.splits dest: CreateHistogram_le)
next
  case (Call_CreateGauge name description unit)
  with assms show ?thesis
    by (auto simp: dropping_def split: outcome.splits prod.splits dest: CreateGauge_le)
next
  case (Call_CreateDynamicCounter name description unit)
  with assms show ?thesis
    by (auto simp: dropping_def split: outcome.splits prod.splits dest: CreateDynamicCounter_le)
next
  case (Call_IncrementCounter ctx name val attrs)
  with assms show ?thesis by (auto dest: IncrementCounter_le)
next
  case (Call_RecordHistogram ctx name val attrs)
  with assms show ?thesis using RecordHistogram_le by auto
next
  case (Call_SetGauge ctx name val attrs)
  with assms show ?thesis using SetGauge_le by auto
qed

lemma run_calls_le: "run_calls cs s = Return s' \<Longrightarrow> registry_le s s'"
proof (induction cs arbitrary: s)
  case Nil
  then show ?case by (simp add: registry_le_refl)
next
  case (Cons c cs)
  from Cons.prems obtain t where t: "run_call c s = Return t" and rest: "run_calls cs t = Return s'"
    by (auto split: outcome.splits)
  from t have "registry_le s t" by (rule run_call_le)
  moreover from rest have "registry_le t s'" by (rule Cons.IH)
  ultimately show ?case by (rule registry_le_trans)
qed

lemma registry_le_counters: "registry_le s s' \<Longrightarrow> counters s n = Some i \<Longrightarrow> counters s' n = Some i"
  by (auto simp: registry_le_def map_le_def dom_def)

lemma registry_le_histograms:
  "registry_le s s' \<Longrightarrow> histograms s n = Some i \<Longrightarrow> histograms s' n = Some i"
  by (auto simp: registry_le_def map_le_def dom_def)

lemma registry_le_gauges: "registry_le s s' \<Longrightarrow> gauges s n = Some i \<Longrightarrow> gauges s' n = Some i"
  by (auto simp: registry_le_def map_le_def dom_def)

lemma CreateCounter_stored:
  "CreateCounter n d u s = Return (Inr i, s') \<Longrightarrow> counters s' n = Some i"
  by (auto simp: CreateCounter_def split: option.splits outcome.splits sum.splits prod.splits
           dest!: meter_new_registry)

lemma CreateHistogram_stored:
  "CreateHistogram n d u s = Return (Inr i, s') \<Longrightarrow> histograms s' n = Some i"
  by (auto simp: CreateHistogram_def split: option.splits outcome.splits sum.splits prod.splits
           dest!: meter_new_registry)

lemma CreateGauge_stored:
  "CreateGauge n d u s = Return (Inr i, s') \<Longrightarrow> gauges s' n = Some i"
  by (auto simp: CreateGauge_def split: option.splits outcome.splits sum.splits prod.splits
           dest!: meter_new_registry)

lemma get_or_create_stored:
  assumes "get_or_create kind n d u s = Return (Inr i, s')"
  shows "get_or_create kind n d' u' s' = Return (Inr i, s')"
proof (cases kind)
  case Int64Counter
  with assms have "counters s' n = Some i" by (simp add: get_or_create_def CreateCounter_stored)
  with Int64Counter show ?thesis by (simp add: get_or_create_def CreateCounter_def)
next
  case Float64Histogram
  with assms have "histograms s' n = Some i"
    by (simp add: get_or_create_def CreateHistogram_stored)
  with Float64Histogram show ?thesis by (simp add: get_or_create_def CreateHistogram_def)
next
  case Float64UpDownCounter
  with assms have "gauges s' n = Some i" by (simp add: get_or_create_def CreateGauge_stored)
  with Float64UpDownCounter show ?thesis by (simp add: get_or_create_def CreateGauge_def)
qed

lemma get_or_create_registry_le:
  assumes "get_or_create kind n d u s = Return (Inr i, s)" and "registry_le s s'"
  shows "get_or_create kind n d u s' = Return (Inr i, s')"
proof (cases kind)
  case Int64Counter
  with assms(1) have "counters s n = Some i" by (simp add: get_or_create_def CreateCounter_stored)
  with assms(2) have "counters s' n = Some i" by (rule registry_le_counters)
  with Int64Counter show ?thesis by (simp add: get_or_create_def CreateCounter_def)
next
  case Float64Histogram
  with assms(1) have "histograms s n = Some i"
    by (simp add: get_or_create_def CreateHistogram_stored)
  with assms(2) have "histograms s' n = Some i" by (rule registry_le_histograms)
  with Float64Histogram show ?thesis by (simp add: get_or_create_def CreateHistogram_def)
next
  case Float64UpDownCounter
  with assms(1) have "gauges s n = Some i" by (simp add: get_or_create_def CreateGauge_stored)
  with assms(2) have "gauges s' n = Some i" by (rule registry_le_gauges)
  with Float64UpDownCounter show ?thesis by (simp add: get_or_create_def CreateGauge_def)
qed

text \<open>
  C4. Once a get-or-create call (\<open>CreateCounter\<close>, \<open>CreateHistogram\<close> or \<open>CreateGauge\<close>)
  for a name has returned an instrument, every later call of the same operation for
  that name, with any description and unit and after any calls of the package in
  between, returns that same instrument, returns no error, and leaves the state, and
  so the stored instrument, as it is.
\<close>

theorem get_or_create_returns_stored_instrument:
  assumes "get_or_create kind n d u s = Return (Inr i, s1)"
      and "run_calls cs s1 = Return s2"
  shows "get_or_create kind n d' u' s2 = Return (Inr i, s2)"
proof -
  from assms(1) have "get_or_create kind n d' u' s1 = Return (Inr i, s1)"
    by (rule get_or_create_stored)
  moreover from assms(2) have "registry_le s1 s2" by (rule run_calls_le)
  ultimately show ?thesis by (rule get_or_create_registry_le)
qed

theorem get_or_create_returns_stored_instrument_witness:
  "get_or_create Float64UpDownCounter ''queue_depth'' ''Jobs waiting'' ''1'' running
     = Return (Inr 8, with_queue_gauge)
   \<and> run_calls [Call_SetGauge Background ''queue_depth'' (Float64 3) [],
                 Call_IncrementCounter Background ''jobs_total'' 1 []] with_queue_gauge
     = Return with_queue_gauge_used
   \<and> get_or_create Float64UpDownCounter ''queue_depth'' ''Queue depth'' ''{jobs}''
        with_queue_gauge_used
     = Return (Inr 8, with_queue_gauge_used)"
proof -
  have a: "get_or_create Float64UpDownCounter ''queue_depth'' ''Jobs waiting'' ''1'' running
             = Return (Inr 8, with_queue_gauge)"
    by (simp add: get_or_create_def CreateGauge_def meter_new_def running_def checking_meter_def
          with_queue_gauge_def)
  have b: "run_calls [Call_SetGauge Background ''queue_depth'' (Float64 3) [],
                      Call_IncrementCounter Background ''jobs_total'' 1 []] with_queue_gauge
             = Return with_queue_gauge_used"
    by (simp add: SetGauge_def getGaugeValue_def IncrementCounter_def CreateDynamicCounter_def
          CreateCounter_def meter_new_def running_def checking_meter_def emit_def
          minus_float64_examples Let_def with_queue_gauge_def with_queue_gauge_used_def)
  from get_or_create_returns_stored_instrument [OF a b] a b show ?thesis by simp
qed

text \<open>
  C7, as the code has it. Each kind has a map of its own, so a name is bound to at
  most one instrument of each kind; and no sequence of calls of the package changes or
  removes a binding: every binding of the maps before the calls is a binding after.
\<close>

theorem instrument_bindings_are_kept:
  assumes "run_calls cs s = Return s'"
  shows "counters s \<subseteq>\<^sub>m counters s' \<and> histograms s \<subseteq>\<^sub>m histograms s' \<and> gauges s \<subseteq>\<^sub>m gauges s'"
proof -
  from assms have "registry_le s s'" by (rule run_calls_le)
  then show ?thesis by (simp add: registry_le_def)
qed

theorem instrument_bindings_are_kept_witness:
  "run_calls [Call_CreateGauge ''queue_depth'' ''Jobs waiting'' ''1'',
              Call_IncrementCounter Background ''queue_depth'' 1 []] running
     = Return with_queue_gauge_and_counter
   \<and> counters running \<subseteq>\<^sub>m counters with_queue_gauge_and_counter
   \<and> histograms running \<subseteq>\<^sub>m histograms with_queue_gauge_and_counter
   \<and> gauges running \<subseteq>\<^sub>m gauges with_queue_gauge_and_counter"
proof -
  have a: "run_calls [Call_CreateGauge ''queue_depth'' ''Jobs waiting'' ''1'',
                      Call_IncrementCounter Background ''queue_depth'' 1 []] running
             = Return with_queue_gauge_and_counter"
    by (simp add: dropping_def CreateGauge_def IncrementCounter_def CreateDynamicCounter_def
          CreateCounter_def meter_new_def running_def checking_meter_def emit_def
          with_queue_gauge_and_counter_def)
  from instrument_bindings_are_kept [OF a] a show ?thesis by simp
qed

text \<open>
  C7 as stated fails: after \<open>CreateGauge\<close> and \<open>IncrementCounter\<close> with the same name,
  the name is registered as a gauge and as a counter at once.
\<close>

theorem name_registered_under_two_kinds:
  "run_calls [Call_CreateGauge ''queue_depth'' ''Jobs waiting'' ''1'',
              Call_IncrementCounter Background ''queue_depth'' 1 []] running
     = Return with_queue_gauge_and_counter
   \<and> gauges with_queue_gauge_and_counter ''queue_depth'' = Some 8
   \<and> counters with_queue_gauge_and_counter ''queue_depth'' = Some 9"
  by (simp add: dropping_def CreateGauge_def IncrementCounter_def CreateDynamicCounter_def
        CreateCounter_def meter_new_def running_def checking_meter_def emit_def
        with_queue_gauge_and_counter_def)


section \<open>Calls without an instrument or without a meter\<close>

lemma IncrementCounter_creates_on_first_use:
  assumes "counters s name = None" and "meter s = Some m"
      and "m (instruments_requested s) Int64Counter name (''Dynamic counter for '' @ name) [] = Inr c"
  shows "IncrementCounter ctx name val attrs s =
           Return (emit (CounterAdd c val attrs)
                     (s\<lparr>instruments_requested := instruments_requested s + 1,
                        counters := (counters s)(name \<mapsto> c)\<rparr>))"
  using assms
  by (simp add: IncrementCounter_def CreateDynamicCounter_def CreateCounter_def meter_new_def)

lemma IncrementCounter_creation_error_logged:
  assumes "counters s name = None" and "meter s = Some m"
      and "m (instruments_requested s) Int64Counter name (''Dynamic counter for '' @ name) [] = Inl err"
  shows "IncrementCounter ctx name val attrs s =
           Return (emit (LogPrintf (''Warning: Failed to create counter '' @ quoted name
                                      @ '': '' @ err))
                     (s\<lparr>instruments_requested := instruments_requested s + 1\<rparr>))"
  using assms
  by (simp add: IncrementCounter_def CreateDynamicCounter_def CreateCounter_def meter_new_def)

lemma IncrementCounter_existing:
  assumes "counters s name = Some c"
  shows "IncrementCounter ctx name val attrs s = Return (emit (CounterAdd c val attrs) s)"
  using assms by (simp add: IncrementCounter_def CreateDynamicCounter_def)

lemma IncrementCounter_live_meter_returns:
  assumes "meter s = Some m"
  shows "IncrementCounter ctx name val attrs s \<noteq> Panic"
  using assms
  by (simp add: IncrementCounter_def CreateDynamicCounter_def CreateCounter_def meter_new_def
        split: option.splits sum.splits)

lemma RecordHistogram_undeclared:
  "histograms s name = None \<Longrightarrow>
     RecordHistogram ctx name val attrs s =
       emit (LogPrintf (''Warning: Histogram '' @ quoted name @ '' not found'')) s"
  by (simp add: RecordHistogram_def)

lemma SetGauge_undeclared: "gauges s name = None \<Longrightarrow> SetGauge ctx name val attrs s = s"
  by (simp add: SetGauge_def)

lemma StartSpan_nil_tracer: "tracer s = None \<Longrightarrow> StartSpan ctx name s = ((ctx, NoopSpan), s)"
  by (simp add: StartSpan_def)

lemma disabled_IncrementCounter_always_panics:
  "IncrementCounter ctx name val attrs disabled = Panic"
  by (simp add: IncrementCounter_def CreateDynamicCounter_def CreateCounter_def meter_new_def
        disabled_def initial_def)

text \<open>
  C2. After \<open>InitTelemetry\<close> with \<open>enableTelemetry = false\<close> the variable \<open>meter\<close> is
  still nil and no counter is registered, so \<open>IncrementCounter\<close> reaches the call
  \<open>meter.Int64Counter\<close> on the nil interface and panics; the middleware, which calls
  \<open>IncrementCounter\<close>, panics with it.
\<close>

theorem disabled_IncrementCounter_panics:
  "InitTelemetry ''api'' ''localhost:4318'' ''localhost:4318'' True (Float64 1) False lib_ok initial
     = Return (Inr NoopShutdown, disabled)
   \<and> IncrementCounter (WithCancel Background) ''http_requests_total'' 1 [] disabled = Panic
   \<and> TraceMiddleware handler_body_only [] healthcheck_request (Float64 0) disabled = Panic"
proof -
  have init: "InitTelemetry ''api'' ''localhost:4318'' ''localhost:4318'' True (Float64 1) False
                lib_ok initial = Return (Inr NoopShutdown, disabled)"
    by (simp add: InitTelemetry_def disabled_def)
  have inc: "IncrementCounter (WithCancel Background) ''http_requests_total'' 1 [] disabled
               = Panic"
    by (rule disabled_IncrementCounter_always_panics)
  have mw: "TraceMiddleware handler_body_only [] healthcheck_request (Float64 0) disabled = Panic"
    by (simp add: TraceMiddleware_def StartSpan_def span_SetAttributes_def RecordHistogram_def
          IncrementCounter_def CreateDynamicCounter_def CreateCounter_def meter_new_def emit_def
          disabled_def initial_def Let_def)
  from init inc mw show ?thesis by simp
qed

text \<open>The other five calls of the surface return in that state.\<close>

lemma disabled_other_calls_return:
  "StartSpan ctx name disabled = ((ctx, NoopSpan), disabled)"
  "AddEvent Background name attrs disabled = disabled"
  "SetAttributes Background attrs disabled = disabled"
  "RecordHistogram ctx name val attrs disabled =
     emit (LogPrintf (''Warning: Histogram '' @ quoted name @ '' not found'')) disabled"
  "SetGauge ctx name val attrs disabled = disabled"
  by (simp_all add: StartSpan_def AddEvent_def SetAttributes_def span_AddEvent_def
        span_SetAttributes_def RecordHistogram_def SetGauge_def disabled_def initial_def)

text \<open>
  C5. With \<open>meter\<close> nil (telemetry disabled, or \<open>InitTelemetry\<close> not yet called) and no
  counter of that name, \<open>IncrementCounter\<close> panics.
\<close>

theorem IncrementCounter_nil_meter_panics:
  assumes "meter s = None" and "counters s name = None"
  shows "IncrementCounter ctx name val attrs s = Panic"
  using assms
  by (simp add: IncrementCounter_def CreateDynamicCounter_def CreateCounter_def meter_new_def)

theorem IncrementCounter_nil_meter_panics_witness:
  "meter (initial :: float64 telemetry) = None
   \<and> counters (initial :: float64 telemetry) ''http_requests_get__v1_healthcheck'' = None
   \<and> IncrementCounter (WithCancel Background) ''http_requests_get__v1_healthcheck'' 1
        [attribute_Int ''status'' 200] (initial :: float64 telemetry) = Panic"
proof -
  have a: "meter (initial :: float64 telemetry) = None" by (simp add: initial_def)
  have b: "counters (initial :: float64 telemetry) ''http_requests_get__v1_healthcheck'' = None"
    by (simp add: initial_def)
  from IncrementCounter_nil_meter_panics [OF a b] a b show ?thesis by simp
qed

text \<open>
  C6. For a name that is no gauge, \<open>SetGauge\<close> returns the state as it is and logs
  nothing, where \<open>RecordHistogram\<close> for a name that is no histogram logs its warning.
\<close>

theorem SetGauge_undeclared_logs_nothing:
  "SetGauge Background ''queue_depth'' (Float64 1) [] running = running
   \<and> effects (SetGauge Background ''queue_depth'' (Float64 1) [] running) = []
   \<and> effects (RecordHistogram Background ''queue_depth'' (Float64 1) [] running)
       = [LogPrintf (''Warning: Histogram '' @ quoted ''queue_depth'' @ '' not found'')]"
  by (simp add: SetGauge_def RecordHistogram_def running_def emit_def)

section \<open>The deltas of the gauge adapter\<close>

lemma SetGauge_declared:
  assumes "gauges s name = Some g"
  shows "SetGauge ctx name val attrs s =
           s\<lparr>effects := effects s @ [UpDownCounterAdd g (val - getGaugeValue ctx name s) attrs],
              lastKnownValues := (lastKnownValues s)(name \<mapsto> val)\<rparr>"
  using assms by (simp add: SetGauge_def emit_def Let_def)

lemma gauge_deltas_append: "gauge_deltas g (xs @ ys) = gauge_deltas g xs @ gauge_deltas g ys"
  by (induction g xs rule: gauge_deltas.induct) simp_all

lemma SetGauge_seq_effects:
  assumes "gauges s name = Some g"
  shows "gauges (SetGauge_seq ctx name vs s) name = Some g
       \<and> gauge_deltas g (effects (SetGauge_seq ctx name vs s))
           = gauge_deltas g (effects s) @ set_deltas (getGaugeValue ctx name s) vs
       \<and> length (effects s) \<le> length (effects (SetGauge_seq ctx name vs s))
       \<and> take (length (effects s)) (effects (SetGauge_seq ctx name vs s)) = effects s"
  using assms
proof (induction vs arbitrary: s)
  case Nil
  then show ?case by simp
next
  case (Cons p vs)
  obtain v attrs where p: "p = (v, attrs)" by (cases p)
  let ?t = "SetGauge ctx name v attrs s"
  from Cons.prems have t: "?t = s\<lparr>effects := effects s
                              @ [UpDownCounterAdd g (v - getGaugeValue ctx name s) attrs],
                            lastKnownValues := (lastKnownValues s)(name \<mapsto> v)\<rparr>"
    by (rule SetGauge_declared)
  then have g: "gauges ?t name = Some g" using Cons.prems by simp
  have cur: "getGaugeValue ctx name ?t = v" by (simp add: t getGaugeValue_def)
  have eff: "effects ?t = effects s @ [UpDownCounterAdd g (v - getGaugeValue ctx name s) attrs]"
    by (simp add: t)
  from Cons.IH [OF g] have ih:
    "gauges (SetGauge_seq ctx name vs ?t) name = Some g"
    "gauge_deltas g (effects (SetGauge_seq ctx name vs ?t))
       = gauge_deltas g (effects ?t) @ set_deltas v vs"
    "length (effects ?t) \<le> length (effects (SetGauge_seq ctx name vs ?t))"
    "take (length (effects ?t)) (effects (SetGauge_seq ctx name vs ?t)) = effects ?t"
    by (simp_all add: cur)
  have tk: "take (length (effects s)) (effects (SetGauge_seq ctx name vs ?t)) = effects s"
  proof -
    have "take (length (effects s)) (take (length (effects ?t))
            (effects (SetGauge_seq ctx name vs ?t))) = take (length (effects s)) (effects ?t)"
      by (simp only: ih(4))
    then show ?thesis by (simp add: eff min_def)
  qed
  from ih tk show ?case by (simp add: p eff gauge_deltas_append)
qed

lemma SetGauge_seq_new_deltas:
  assumes "gauges s name = Some g"
  shows "gauge_deltas g (new_effects s (SetGauge_seq ctx name vs s))
           = set_deltas (getGaugeValue ctx name s) vs"
proof -
  let ?s' = "SetGauge_seq ctx name vs s"
  from SetGauge_seq_effects [OF assms, of ctx vs]
  have d: "gauge_deltas g (effects ?s') = gauge_deltas g (effects s)
             @ set_deltas (getGaugeValue ctx name s) vs"
    and tk: "take (length (effects s)) (effects ?s') = effects s"
    by simp_all
  have "effects ?s' = take (length (effects s)) (effects ?s') @ new_effects s ?s'"
    by (simp add: new_effects_def)
  then have "effects ?s' = effects s @ new_effects s ?s'" by (simp only: tk)
  then have "gauge_deltas g (effects ?s')
               = gauge_deltas g (effects s) @ gauge_deltas g (new_effects s ?s')"
    by (metis gauge_deltas_append)
  with d show ?thesis by simp
qed

lemma SetGauge_seq_lastKnown:
  assumes "gauges s name = Some g"
  shows "lastKnownValues (SetGauge_seq ctx name (ws @ [(v, attrs)]) s) name = Some v"
  using assms
proof (induction ws arbitrary: s)
  case Nil
  then show ?case by (simp add: SetGauge_declared)
next
  case (Cons p ws)
  obtain w a where p: "p = (w, a)" by (cases p)
  from Cons.prems have "gauges (SetGauge ctx name w a s) name = Some g"
    by (simp add: SetGauge_declared)
  from Cons.IH [OF this] show ?case by (simp add: p)
qed

text \<open>With exact subtractions every delta is finite, and the deltas add up to the
  difference of the last value and the value set before.\<close>

lemma exact_diffs_sum:
  assumes "exact_diffs prev vs"
  shows "list_all is_finite (set_deltas prev vs)
       \<and> f64_units prev + sum_list (map f64_units (set_deltas prev vs))
           = f64_units (last (prev # map fst vs))"
  using assms
proof (induction vs arbitrary: prev)
  case Nil
  then show ?case by simp
next
  case (Cons p vs)
  obtain v attrs where p: "p = (v, attrs)" by (cases p)
  from Cons.prems p have fin: "is_finite (v - prev)"
    and ex: "f64_units (v - prev) = f64_units v - f64_units prev"
    and rest: "exact_diffs v vs"
    by simp_all
  from Cons.IH [OF rest] fin show ?case by (simp add: p ex)
qed

text \<open>
  C1, as the code has it. For a registered gauge that has not been set, and a sequence
  of finite \<open>float64\<close> values for which every subtraction \<open>value - lastKnown\<close> that
  \<open>SetGauge\<close> performs is exact, the deltas passed to the accumulator are finite and
  their sum, as numbers, is the last value set (zero for the empty sequence). And
  after each call, for every \<open>float64\<close> value, the infinities and NaN among them,
  \<open>lastKnownValues[name]\<close> holds the value just set.
\<close>

theorem SetGauge_deltas_sum_to_last_value:
  assumes "gauges s name = Some g" and "lastKnownValues s name = None" and "exact_diffs 0 vs"
  shows "list_all is_finite (gauge_deltas g (new_effects s (SetGauge_seq ctx name vs s)))
       \<and> sum_list (map f64_units (gauge_deltas g (new_effects s (SetGauge_seq ctx name vs s))))
           = f64_units (last (0 # map fst vs))
       \<and> lastKnownValues (SetGauge_seq ctx name (ws @ [(v, attrs)]) s) name = Some v"
proof -
  from assms(2) have cur: "getGaugeValue ctx name s = 0" by (simp add: getGaugeValue_def)
  from assms(1) have d: "gauge_deltas g (new_effects s (SetGauge_seq ctx name vs s))
                           = set_deltas 0 vs"
    by (simp add: SetGauge_seq_new_deltas cur)
  from exact_diffs_sum [OF assms(3)]
  have "list_all is_finite (set_deltas 0 vs)"
    and "sum_list (map f64_units (set_deltas 0 vs)) = f64_units (last (0 # map fst vs))"
    by (simp_all add: f64_units_zero)
  moreover from assms(1)
  have "lastKnownValues (SetGauge_seq ctx name (ws @ [(v, attrs)]) s) name = Some v"
    by (rule SetGauge_seq_lastKnown)
  ultimately show ?thesis by (simp add: d)
qed

lemma memory_alloc_deltas:
  "Float64 4194304 - 0 = Float64 4194304"
  "Float64 1048576 - Float64 4194304 = Float64 (- 3145728)"
  "Float64 3145728 - Float64 1048576 = Float64 2097152"
  by (simp_all add: f64_eval)

lemma memory_alloc_units:
  "f64_units (Float64 4194304) = 4194304 * 2 ^ 1074"
  "f64_units (Float64 1048576) = 1048576 * 2 ^ 1074"
  "f64_units (Float64 3145728) = 3145728 * 2 ^ 1074"
  "f64_units (Float64 (- 3145728)) = - 3145728 * 2 ^ 1074"
  "f64_units (Float64 2097152) = 2097152 * 2 ^ 1074"
  by (simp_all add: f64_eval)

lemma memory_alloc_float64:
  "is_float64 (Float64 4194304) \<and> is_finite (Float64 4194304)"
  "is_float64 (Float64 1048576) \<and> is_finite (Float64 1048576)"
  "is_float64 (Float64 3145728) \<and> is_finite (Float64 3145728)"
  "is_finite (Float64 (- 3145728))"
  "is_finite (Float64 2097152)"
  by (simp_all add: f64_eval)

theorem SetGauge_deltas_sum_to_last_value_witness:
  "gauges running ''memory_alloc_bytes'' = Some 0
   \<and> lastKnownValues running ''memory_alloc_bytes'' = None
   \<and> exact_diffs 0 [(Float64 4194304, []), (Float64 1048576, []), (Float64 3145728, [])]
   \<and> list_all is_finite (gauge_deltas 0 (new_effects running
        (SetGauge_seq Background ''memory_alloc_bytes''
           [(Float64 4194304, []), (Float64 1048576, []), (Float64 3145728, [])] running)))
   \<and> sum_list (map f64_units (gauge_deltas 0 (new_effects running
        (SetGauge_seq Background ''memory_alloc_bytes''
           [(Float64 4194304, []), (Float64 1048576, []), (Float64 3145728, [])] running))))
       = f64_units (Float64 3145728)
   \<and> lastKnownValues (SetGauge_seq Background ''memory_alloc_bytes''
        ([(Float64 4194304, [])] @ [(Float64 1048576, [])]) running) ''memory_alloc_bytes''
       = Some (Float64 1048576)"
proof -
  have a: "gauges running ''memory_alloc_bytes'' = Some 0" by (simp add: running_def)
  have b: "lastKnownValues running ''memory_alloc_bytes'' = None" by (simp add: running_def)
  have c: "exact_diffs 0 [(Float64 4194304, []), (Float64 1048576, []), (Float64 3145728, [])]"
    by (simp add: memory_alloc_deltas memory_alloc_float64 memory_alloc_units f64_units_zero)
  from SetGauge_deltas_sum_to_last_value [OF a b c, of Background "[(Float64 4194304, [])]"
         "Float64 1048576" "[]"] a b c
  show ?thesis by simp
qed

text \<open>
  C1 as stated fails: after \<open>SetGauge(ctx, name, 18014398509481984)\<close> (\<open>2^54\<close>) and
  \<open>SetGauge(ctx, name, 1)\<close> the second delta \<open>1 - 2^54\<close> is rounded to \<open>-2^54\<close>, and the
  deltas sum to 0, not to the last value 1.
\<close>

theorem SetGauge_deltas_miss_last_value:
  "gauges running ''memory_total_alloc_bytes'' = Some 1
   \<and> lastKnownValues running ''memory_total_alloc_bytes'' = None
   \<and> is_float64 (Float64 18014398509481984) \<and> is_finite (Float64 18014398509481984)
   \<and> is_float64 (Float64 1) \<and> is_finite (Float64 1)
   \<and> gauge_deltas 1 (new_effects running
        (SetGauge_seq Background ''memory_total_alloc_bytes''
           [(Float64 18014398509481984, []), (Float64 1, [])] running))
       = [Float64 18014398509481984, Float64 (- 18014398509481984)]
   \<and> sum_list (map f64_units [Float64 18014398509481984, Float64 (- 18014398509481984)]) = 0
   \<and> f64_units (Float64 1) = 2 ^ 1074"
proof -
  have g: "gauges running ''memory_total_alloc_bytes'' = Some 1" by (simp add: running_def)
  have l: "lastKnownValues running ''memory_total_alloc_bytes'' = None"
    by (simp add: running_def)
  have f: "is_float64 (Float64 18014398509481984)" "is_finite (Float64 18014398509481984)"
    "is_float64 (Float64 1)" "is_finite (Float64 1)"
    by (simp_all add: Float64_examples)
  have d: "gauge_deltas 1 (new_effects running
        (SetGauge_seq Background ''memory_total_alloc_bytes''
           [(Float64 18014398509481984, []), (Float64 1, [])] running))
       = [Float64 18014398509481984, Float64 (- 18014398509481984)]"
    using l
    by (subst SetGauge_seq_new_deltas [OF g])
       (simp add: getGaugeValue_def minus_float64_examples)
  have u: "sum_list (map f64_units [Float64 18014398509481984, Float64 (- 18014398509481984)])
             = 0"
    "f64_units (Float64 1) = 2 ^ 1074"
    by (simp_all add: Float64_examples signed_def)
  from g l f d u show ?thesis by simp
qed


section \<open>The sampler and its cancellation\<close>

lemma updateSystemMetrics_run_append:
  "updateSystemMetrics_run ctx (xs @ ys) st =
     (case updateSystemMetrics_run ctx xs st of
        None \<Rightarrow> None
      | Some mid \<Rightarrow> updateSystemMetrics_run ctx ys mid)"
  by (induction xs arbitrary: st) (simp_all split: option.splits)

lemma updateSystemMetrics_step_Done:
  assumes "updateSystemMetrics_step ctx ctx_Done st = Some st'"
  shows "can_be_done ctx \<and> fst st' = Returned \<and> snd st' = snd st"
proof -
  obtain l s where st: "st = (l, s)" by (cases st)
  with assms show ?thesis by (cases l) (auto split: if_splits)
qed

lemma updateSystemMetrics_step_Returned:
  "fst st = Returned \<Longrightarrow> updateSystemMetrics_step ctx c st = None"
  by (cases st) simp

lemma updateSystemMetrics_run_Returned:
  assumes "updateSystemMetrics_run ctx cs st = Some st'" and "fst st = Returned"
  shows "cs = [] \<and> st' = st"
  using assms by (cases cs) (simp_all add: updateSystemMetrics_step_Returned)

text \<open>
  The function \<open>updateSystemMetrics\<close> by itself, under any context: a run of the loop in
  which the case \<open><-ctx.Done()\<close> fires ends with that step. No case fires after it, the
  function has returned and its ticker is stopped, and the telemetry state is the one
  the steps before left. The context of such a run is one whose \<open>Done\<close> channel can
  deliver.
\<close>

lemma updateSystemMetrics_returns_when_done:
  assumes "updateSystemMetrics_run ctx (before @ ctx_Done # after) st = Some st'"
  shows "after = [] \<and> can_be_done ctx \<and> fst st' = Returned \<and> \<not> ticker_running (fst st')
       \<and> map_option snd (updateSystemMetrics_run ctx before st) = Some (snd st')
       \<and> updateSystemMetrics_step ctx c st' = None"
proof -
  from assms obtain mid where
    mid: "updateSystemMetrics_run ctx before st = Some mid" and
    rest: "updateSystemMetrics_run ctx (ctx_Done # after) mid = Some st'"
    by (auto simp: updateSystemMetrics_run_append split: option.splits)
  from rest obtain st1 where
    fired: "updateSystemMetrics_step ctx ctx_Done mid = Some st1" and
    tail: "updateSystemMetrics_run ctx after st1 = Some st'"
    by (auto split: option.splits)
  from fired have d: "can_be_done ctx" "fst st1 = Returned" "snd st1 = snd mid"
    using updateSystemMetrics_step_Done by blast+
  from tail d(2) have e: "after = []" "st' = st1"
    using updateSystemMetrics_run_Returned by blast+
  from d e mid show ?thesis by (simp add: updateSystemMetrics_step_Returned)
qed

lemma SetGauge_counters: "counters (SetGauge ctx name val attrs s) = counters s"
  by (simp add: SetGauge_def emit_def Let_def split: option.splits)

text \<open>With the counter \<open>gc_runs_total\<close> registered the body of the loop does not panic.\<close>

lemma tick_keeps_selecting:
  assumes "counters s ''gc_runs_total'' = Some c"
  shows "fst (tick ctx m lastNumGC s)
           = Selecting (if 0 < NumGC m - lastNumGC then NumGC m else lastNumGC)"
  using assms by (simp add: tick_def Let_def SetGauge_counters IncrementCounter_existing)

text \<open>
  Under \<open>context.Background()\<close> the cancellation fires in no run of the loop, and a
  tick can always be taken while the loop is selecting.
\<close>

lemma Background_is_never_done:
  assumes "updateSystemMetrics_run Background cs st = Some st'"
  shows "ctx_Done \<notin> set cs"
  using assms
proof (induction cs arbitrary: st)
  case Nil
  then show ?case by simp
next
  case (Cons c cs)
  from Cons.prems obtain st1 where
    s: "updateSystemMetrics_step Background c st = Some st1" and
    r: "updateSystemMetrics_run Background cs st1 = Some st'"
    by (auto split: option.splits)
  from s have "c \<noteq> ctx_Done" using updateSystemMetrics_step_Done by fastforce
  moreover from r have "ctx_Done \<notin> set cs" by (rule Cons.IH)
  ultimately show ?case by simp
qed

lemma tick_is_always_enabled:
  "updateSystemMetrics_step ctx (ticker_C m) (Selecting lastNumGC, s) \<noteq> None"
  by simp

text \<open>Two ticks of the sampler that \<open>InitTelemetry\<close> has launched, with the same reading
  of the runtime: six writes at the first tick, five at the second.\<close>

lemma two_ticks_example:
  "map_option (\<lambda>st. (fst st, length (effects (snd st))))
     (updateSystemMetrics Background [ticker_C example_reading, ticker_C example_reading] running)
   = Some (Selecting 2, 11)"
  by (simp add: updateSystemMetrics_def tick_def SetGauge_def getGaugeValue_def
        IncrementCounter_def CreateDynamicCounter_def CreateCounter_def emit_def running_def
        example_reading_def Let_def)

text \<open>
  C9, at the sampler that \<open>InitTelemetry\<close> launches. It runs under
  \<open>context.Background()\<close>, whose \<open>Done\<close> channel never delivers, and the shutdown function
  that \<open>InitTelemetry\<close> returns leaves it running. So no cancellation reaches the loop:
  the case \<open><-ctx.Done()\<close> cannot fire, at the start, after a tick, or after the
  shutdown function has run; the loop does not return and does not stop its ticker,
  and it goes on writing at every tick.
\<close>

theorem launched_sampler_is_never_cancelled:
  "InitTelemetry ''api'' ''localhost:4318'' ''localhost:4318'' True (Float64 1) True lib_ok initial
     = Return (Inr ProvidersShutdown, running)
   \<and> goroutines running = [Background]
   \<and> goroutines (call_shutdown ProvidersShutdown None None running) = [Background]
   \<and> can_be_done Background = False
   \<and> updateSystemMetrics Background [ctx_Done] running = None
   \<and> updateSystemMetrics Background [ticker_C example_reading, ctx_Done] running = None
   \<and> updateSystemMetrics Background [ctx_Done]
        (call_shutdown ProvidersShutdown None None running) = None
   \<and> map_option (\<lambda>st. (fst st, length (effects (snd st))))
        (updateSystemMetrics Background [ticker_C example_reading, ticker_C example_reading]
           (call_shutdown ProvidersShutdown None None running))
       = Some (Selecting 2, 11)
   \<and> ticker_running (Selecting 2)"
proof -
  have init: "InitTelemetry ''api'' ''localhost:4318'' ''localhost:4318'' True (Float64 1) True
                lib_ok initial = Return (Inr ProvidersShutdown, running)"
    by (rule InitTelemetry_enabled_running)
  have sh: "call_shutdown ProvidersShutdown None None running = running"
    by (simp add: call_shutdown_def)
  have g: "goroutines running = [Background]" by (simp add: running_def)
  have d: "updateSystemMetrics Background [ctx_Done] running = None"
    by (simp add: updateSystemMetrics_def)
  have t: "counters running ''gc_runs_total'' = Some 5" by (simp add: running_def)
  have d': "updateSystemMetrics Background [ticker_C example_reading, ctx_Done] running = None"
    using tick_keeps_selecting [OF t, of Background example_reading 0]
    by (cases "tick Background example_reading 0 running")
       (simp add: updateSystemMetrics_def example_reading_def)
  from init g d d' two_ticks_example show ?thesis by (simp add: sh)
qed


section \<open>What the middleware records\<close>

lemma foldl_crw_call:
  "statusCode (foldl crw_call crw cs)
     = (if header_codes cs = [] then statusCode crw else last (header_codes cs))
   \<and> ResponseWriter (foldl crw_call crw cs) = ResponseWriter crw @ cs"
proof (induction cs arbitrary: crw)
  case Nil
  show ?case by simp
next
  case (Cons c cs)
  show ?case by (cases c) (simp_all add: Cons.IH)
qed

lemma ServeHTTP_statusCode:
  "statusCode (ServeHTTP next crw r)
     = (if header_codes (next r) = [] then statusCode crw else last (header_codes (next r)))"
  by (simp add: ServeHTTP_def foldl_crw_call)

lemma ServeHTTP_ResponseWriter:
  "ResponseWriter (ServeHTTP next crw r) = ResponseWriter crw @ next r"
  by (simp add: ServeHTTP_def foldl_crw_call)

lemma IncrementCounter_effect:
  assumes "IncrementCounter ctx name val attrs s = Return s'"
  shows "\<exists>e. effects s' = effects s @ [e]
           \<and> (case counters s' name of
                 Some i \<Rightarrow> e = CounterAdd i val attrs
               | None \<Rightarrow> is_LogPrintf e)"
  using assms
  by (auto simp: IncrementCounter_def CreateDynamicCounter_def CreateCounter_def meter_new_def
        emit_def split: option.splits sum.splits)

lemma RecordHistogram_effects:
  "effects (RecordHistogram ctx name val attrs s)
     = effects s @ [case histograms s name of
                      Some h \<Rightarrow> HistogramRecord h val attrs
                    | None \<Rightarrow> LogPrintf (''Warning: Histogram '' @ quoted name @ '' not found'')]"
  by (simp add: RecordHistogram_def emit_def split: option.splits)

lemma RecordHistogram_counters:
  "counters (RecordHistogram ctx name val attrs s) = counters s"
  by (simp add: RecordHistogram_def emit_def split: option.splits)

lemma IncrementCounter_existing_effect:
  assumes "IncrementCounter ctx name val attrs s = Return s'"
      and "effects s' = effects s @ [e]"
      and "counters s name = Some c"
  shows "e = CounterAdd c val attrs"
  using assms by (auto simp: IncrementCounter_existing emit_def)

text \<open>
  What a request adds to the effects: the calls on its span, if the tracer is set,
  around one effect each of \<open>RecordHistogram\<close> and of the two calls of
  \<open>IncrementCounter\<close>. The underlying writer receives the handler's calls unchanged.
\<close>

lemma TraceMiddleware_steps:
  assumes run: "TraceMiddleware next w r seconds s = Return (w', s')"
      and sp: "StartSpan (Context r) ''http_request'' s = ((ctx, sp), s1)"
      and calls: "calls = next (r\<lparr>Context := ctx\<rparr>)"
      and status: "status = (if header_codes calls = [] then 200 else last (header_codes calls))"
      and labels: "labels = [attribute_String ''method'' (Method r),
                            attribute_String ''path'' (URL_Path r),
                            attribute_Int ''status'' status]"
      and s3: "s3 = span_SetAttributes sp [attribute_Int ''http.status_code'' status]
                      (span_SetAttributes sp
                         [attribute_String ''http.method'' (Method r),
                          attribute_String ''http.url'' (URL_String r),
                          attribute_String ''http.path'' (URL_Path r),
                          attribute_String ''http.host'' (Host r),
                          attribute_String ''http.user_agent'' (UserAgent r)] s1)"
  shows "\<exists>s5 s6.
           IncrementCounter ctx ''http_requests_total'' 1 labels
             (RecordHistogram ctx ''http_request_duration_seconds'' seconds labels s3) = Return s5
         \<and> IncrementCounter ctx (methodPathCounter (Method r) (URL_Path r)) 1
             [attribute_Int ''status'' status] s5 = Return s6
         \<and> s' = span_End sp s6 \<and> w' = w @ calls"
proof -
  let ?crw = "ServeHTTP next \<lparr>ResponseWriter = w, statusCode = StatusOK\<rparr> (r\<lparr>Context := ctx\<rparr>)"
  have st: "statusCode ?crw = status"
    unfolding status calls by (simp add: ServeHTTP_statusCode StatusOK_def)
  have wr: "ResponseWriter ?crw = w @ calls"
    unfolding calls by (simp add: ServeHTTP_ResponseWriter)
  let ?s4 = "RecordHistogram ctx ''http_request_duration_seconds'' seconds labels s3"
  from run have unfolded:
    "(case IncrementCounter ctx ''http_requests_total'' 1 labels ?s4 of
        Panic \<Rightarrow> Panic
      | Return s5 \<Rightarrow>
          (case IncrementCounter ctx (methodPathCounter (Method r) (URL_Path r)) 1
                  [attribute_Int ''status'' status] s5 of
             Panic \<Rightarrow> Panic
           | Return s6 \<Rightarrow> Return (w @ calls, span_End sp s6))) = Return (w', s')"
    unfolding TraceMiddleware_def sp Let_def prod.case st wr labels s3 .
  then obtain s5 where
    y: "IncrementCounter ctx ''http_requests_total'' 1 labels ?s4 = Return s5"
    by (cases "IncrementCounter ctx ''http_requests_total'' 1 labels ?s4") simp_all
  with unfolded obtain s6 where
    z: "IncrementCounter ctx (methodPathCounter (Method r) (URL_Path r)) 1
          [attribute_Int ''status'' status] s5 = Return s6"
    by (cases "IncrementCounter ctx (methodPathCounter (Method r) (URL_Path r)) 1
                 [attribute_Int ''status'' status] s5") simp_all
  from unfolded y z have "w' = w @ calls" "s' = span_End sp s6" by simp_all
  with y z show ?thesis by blast
qed

lemma TraceMiddleware_effects:
  fixes s :: "'v telemetry"
  assumes run: "TraceMiddleware next w r seconds s = Return (w', s')"
      and calls: "calls = next (r\<lparr>Context := fst (fst (StartSpan (Context r) ''http_request'' s))\<rparr>)"
      and status: "status = (if header_codes calls = [] then 200 else last (header_codes calls))"
      and labels: "labels = [attribute_String ''method'' (Method r),
                            attribute_String ''path'' (URL_Path r),
                            attribute_Int ''status'' status]"
  shows "\<exists>pre y z post.
           effects s' = effects s @ pre
             @ [case histograms s ''http_request_duration_seconds'' of
                  Some h \<Rightarrow> HistogramRecord h seconds labels
                | None \<Rightarrow> LogPrintf (''Warning: Histogram ''
                                     @ quoted ''http_request_duration_seconds'' @ '' not found''),
                y, z] @ post
         \<and> list_all is_span_effect pre \<and> list_all is_span_effect post
         \<and> (tracer s \<noteq> None \<longrightarrow>
               count_list (pre @ post) (SpanSetAttributes (spans_started s)
                                 [attribute_Int ''http.status_code'' status]) = 1)
         \<and> (case counters s ''http_requests_total'' of
               Some c \<Rightarrow> y = CounterAdd c 1 labels
             | None \<Rightarrow> is_LogPrintf y \<or> (\<exists>c. y = CounterAdd c 1 labels))
         \<and> (case counters s' (methodPathCounter (Method r) (URL_Path r)) of
               Some i \<Rightarrow> z = CounterAdd i 1 [attribute_Int ''status'' status]
             | None \<Rightarrow> is_LogPrintf z)
         \<and> w' = w @ calls"
proof -
  obtain ctx sp s1 where start: "StartSpan (Context r) ''http_request'' s = ((ctx, sp), s1)"
    by (metis prod.exhaust)
  let ?attrs = "[attribute_String ''http.method'' (Method r),
                 attribute_String ''http.url'' (URL_String r),
                 attribute_String ''http.path'' (URL_Path r),
                 attribute_String ''http.host'' (Host r),
                 attribute_String ''http.user_agent'' (UserAgent r)]"
  let ?st = "[attribute_Int ''http.status_code'' status]"
  define s3 where "s3 = span_SetAttributes sp ?st (span_SetAttributes sp ?attrs s1)"
  let ?s4 = "RecordHistogram ctx ''http_request_duration_seconds'' seconds labels s3"
  from calls start have calls': "calls = next (r\<lparr>Context := ctx\<rparr>)" by simp
  from TraceMiddleware_steps [OF run start calls' status labels s3_def]
  obtain s5 s6 where
    y: "IncrementCounter ctx ''http_requests_total'' 1 labels ?s4 = Return s5" and
    z: "IncrementCounter ctx (methodPathCounter (Method r) (URL_Path r)) 1
          [attribute_Int ''status'' status] s5 = Return s6" and
    e: "s' = span_End sp s6" and
    w: "w' = w @ calls"
    by blast
  define pre where "pre = (case tracer s of None \<Rightarrow> ([] :: 'v effect list)
      | Some t \<Rightarrow> [SpanStart (spans_started s) ''http_request'',
                   SpanSetAttributes (spans_started s) ?attrs,
                   SpanSetAttributes (spans_started s) ?st])"
  define post where "post = (case tracer s of None \<Rightarrow> ([] :: 'v effect list)
      | Some t \<Rightarrow> [SpanEnd (spans_started s)])"
  have s3_eff: "effects s3 = effects s @ pre"
    and s3_hist: "histograms s3 = histograms s"
    and s3_cnt: "counters s3 = counters s"
    and sp_val: "sp = (case tracer s of None \<Rightarrow> NoopSpan | Some t \<Rightarrow> SDKSpan (spans_started s))"
    using start
    by (auto simp: s3_def pre_def StartSpan_def tracer_Start_def span_SetAttributes_def emit_def
          Let_def split: option.splits)
  from IncrementCounter_effect [OF y] obtain ey where
    ey: "effects s5 = effects ?s4 @ [ey]"
        "case counters s5 ''http_requests_total'' of
           Some i \<Rightarrow> ey = CounterAdd i 1 labels | None \<Rightarrow> is_LogPrintf ey"
    by blast
  from IncrementCounter_effect [OF z] obtain ez where
    ez: "effects s6 = effects s5 @ [ez]"
        "case counters s6 (methodPathCounter (Method r) (URL_Path r)) of
           Some i \<Rightarrow> ez = CounterAdd i 1 [attribute_Int ''status'' status]
         | None \<Rightarrow> is_LogPrintf ez"
    by blast
  have yc: "case counters s ''http_requests_total'' of
              Some c \<Rightarrow> ey = CounterAdd c 1 labels
            | None \<Rightarrow> is_LogPrintf ey \<or> (\<exists>c. ey = CounterAdd c 1 labels)"
  proof (cases "counters s ''http_requests_total''")
    case None
    with ey(2) show ?thesis by (auto split: option.splits)
  next
    case (Some c)
    then have "counters ?s4 ''http_requests_total'' = Some c"
      by (simp add: RecordHistogram_counters s3_cnt)
    with y ey(1) have "ey = CounterAdd c 1 labels" by (rule IncrementCounter_existing_effect)
    with Some show ?thesis by simp
  qed
  have cnt': "counters s' = counters s6" and eff': "effects s' = effects s6 @ post"
    by (auto simp: e sp_val post_def span_End_def emit_def split: option.splits)
  have zc: "case counters s' (methodPathCounter (Method r) (URL_Path r)) of
              Some i \<Rightarrow> ez = CounterAdd i 1 [attribute_Int ''status'' status]
            | None \<Rightarrow> is_LogPrintf ez"
    using ez(2) by (simp add: cnt')
  have eff: "effects s' = effects s @ pre
          @ [case histograms s ''http_request_duration_seconds'' of
               Some h \<Rightarrow> HistogramRecord h seconds labels
             | None \<Rightarrow> LogPrintf (''Warning: Histogram ''
                                  @ quoted ''http_request_duration_seconds'' @ '' not found''),
             ey, ez] @ post"
    by (simp add: eff' ez(1) ey(1) RecordHistogram_effects s3_eff s3_hist)
  have spans: "list_all is_span_effect pre" "list_all is_span_effect post"
    by (simp_all add: pre_def post_def split: option.splits)
  have one: "tracer s \<noteq> None \<longrightarrow>
               count_list (pre @ post) (SpanSetAttributes (spans_started s) ?st) = 1"
    by (auto simp: pre_def post_def attribute_Int_def attribute_String_def)
  from eff spans one yc zc w show ?thesis by blast
qed

lemma span_effects_are_no_metrics:
  assumes "list_all is_span_effect es"
  shows "filter is_HistogramRecord es = [] \<and> filter is_CounterAdd es = []
       \<and> count_list es (CounterAdd i v attrs) = 0"
  using assms
proof (induction es)
  case Nil
  show ?case by simp
next
  case (Cons e es)
  then show ?case by (cases e) simp_all
qed

lemma new_effects_append: "effects s' = effects s @ es \<Longrightarrow> new_effects s s' = es"
  by (simp add: new_effects_def)

text \<open>
  What the middleware records, for any handler that returns. \<open>WriteHeader\<close> of the
  wrapper stores its argument at every call, so the status recorded is that of the
  handler's last call of \<open>WriteHeader\<close>, and 200 if there is none. With the histogram
  \<open>http_request_duration_seconds\<close> and the counter \<open>http_requests_total\<close> registered,
  that status is in the labels of the one histogram observation of the request and of
  its one increment of \<open>http_requests_total\<close>, and, with the tracer set, in the
  attribute \<open>http.status_code\<close> set once on the span. The only other counter increment
  of the request is that of the per-route counter, if that counter is registered
  afterwards. The writer receives the handler's calls.
\<close>

lemma TraceMiddleware_records_last_WriteHeader:
  fixes s :: "'v telemetry"
  assumes "histograms s ''http_request_duration_seconds'' = Some h"
      and "counters s ''http_requests_total'' = Some c"
      and "TraceMiddleware next w r seconds s = Return (w', s')"
      and "calls = next (r\<lparr>Context := fst (fst (StartSpan (Context r) ''http_request'' s))\<rparr>)"
      and "status = (if header_codes calls = [] then 200 else last (header_codes calls))"
      and "labels = [attribute_String ''method'' (Method r),
                     attribute_String ''path'' (URL_Path r),
                     attribute_Int ''status'' status]"
  shows "histogram_records (new_effects s s') = [HistogramRecord h seconds labels]
       \<and> count_list (new_effects s s') (CounterAdd c 1 labels) = 1
       \<and> counter_adds (new_effects s s')
           = CounterAdd c 1 labels
               # (case counters s' (methodPathCounter (Method r) (URL_Path r)) of
                    None \<Rightarrow> []
                  | Some i \<Rightarrow> [CounterAdd i 1 [attribute_Int ''status'' status]])
       \<and> (tracer s \<noteq> None \<longrightarrow>
             count_list (new_effects s s')
               (SpanSetAttributes (spans_started s) [attribute_Int ''http.status_code'' status])
             = 1)
       \<and> w' = w @ calls"
proof -
  from TraceMiddleware_effects [OF assms(3) assms(4) assms(5) assms(6)]
  obtain pre y z post where
    eff: "effects s' = effects s @ pre @ [HistogramRecord h seconds labels, y, z] @ post" and
    pre: "list_all is_span_effect pre" and post: "list_all is_span_effect post" and
    one: "tracer s \<noteq> None \<longrightarrow>
            count_list (pre @ post) (SpanSetAttributes (spans_started s)
                              [attribute_Int ''http.status_code'' status]) = 1" and
    y: "y = CounterAdd c 1 labels" and
    z: "case counters s' (methodPathCounter (Method r) (URL_Path r)) of
          Some i \<Rightarrow> z = CounterAdd i 1 [attribute_Int ''status'' status]
        | None \<Rightarrow> is_LogPrintf z" and
    w: "w' = w @ calls"
    by (auto simp: assms(1) assms(2))
  from eff have new:
    "new_effects s s' = pre @ [HistogramRecord h seconds labels, y, z] @ post"
    by (rule new_effects_append)
  note pre0 = span_effects_are_no_metrics [OF pre]
  note post0 = span_effects_are_no_metrics [OF post]
  have zh: "\<not> is_HistogramRecord z" and
       zc: "filter is_CounterAdd [z]
              = (case counters s' (methodPathCounter (Method r) (URL_Path r)) of
                   None \<Rightarrow> []
                 | Some i \<Rightarrow> [CounterAdd i 1 [attribute_Int ''status'' status]])" and
       zn: "z \<noteq> CounterAdd c 1 labels" and
       zs: "\<not> is_span_effect z"
  proof -
    show "\<not> is_HistogramRecord z" "z \<noteq> CounterAdd c 1 labels" "\<not> is_span_effect z"
      using z
      by (cases z; cases "counters s' (methodPathCounter (Method r) (URL_Path r))";
          simp add: assms(6))+
    show "filter is_CounterAdd [z]
              = (case counters s' (methodPathCounter (Method r) (URL_Path r)) of
                   None \<Rightarrow> []
                 | Some i \<Rightarrow> [CounterAdd i 1 [attribute_Int ''status'' status]])"
    proof (cases "counters s' (methodPathCounter (Method r) (URL_Path r))")
      case None
      with z have "is_LogPrintf z" by simp
      then have "\<not> is_CounterAdd z" by (cases z) simp_all
      with None show ?thesis by simp
    next
      case (Some i)
      with z show ?thesis by simp
    qed
  qed
  have h: "histogram_records (new_effects s s') = [HistogramRecord h seconds labels]"
    using zh by (simp add: histogram_records_def new y pre0 post0)
  have c1: "count_list (new_effects s s') (CounterAdd c 1 labels) = 1"
    using zn by (simp add: new y pre0 post0)
  have ca: "counter_adds (new_effects s s')
           = CounterAdd c 1 labels
               # (case counters s' (methodPathCounter (Method r) (URL_Path r)) of
                    None \<Rightarrow> []
                  | Some i \<Rightarrow> [CounterAdd i 1 [attribute_Int ''status'' status]])"
    unfolding counter_adds_def new y
    by (simp only: filter_append pre0 post0 zc [symmetric]) simp
  have sp: "tracer s \<noteq> None \<longrightarrow>
             count_list (new_effects s s')
               (SpanSetAttributes (spans_started s) [attribute_Int ''http.status_code'' status])
             = 1"
    using one zs by (auto simp: new y)
  from h c1 ca sp w show ?thesis by blast
qed


lemma ToLower_GET: "ToLower ''GET'' = ''get''"
  by code_simp

text \<open>On a path of ASCII bytes \<open>sanitizePath\<close> works byte by byte.\<close>

lemma sanitize_byte:
  "char_of (sanitize_rune (of_char c)) = (if is_alnum_or_filler c then c else CHR ''_'')"
proof (cases "is_alnum_or_filler c")
  case True
  then show ?thesis by (simp add: sanitize_rune_fixed)
next
  case False
  then have "sanitize_rune (of_char c) = 95"
    by (auto simp: is_alnum_or_filler_def sanitize_rune_def Let_def)
  with False show ?thesis by (simp add: char_of_filler)
qed

lemma sanitizePath_ascii:
  "is_ascii s \<Longrightarrow> sanitizePath s = map (\<lambda>c. if is_alnum_or_filler c then c else CHR ''_'') s"
  by (simp add: sanitizePath_runes runes_ascii comp_def sanitize_byte)

lemma sanitizePath_healthcheck: "sanitizePath ''/v1/healthcheck'' = ''_v1_healthcheck''"
  by (simp add: sanitizePath_ascii is_ascii_def is_alnum_or_filler_def)

lemma sanitizePath_long_path:
  "sanitizePath (CHR ''/'' # replicate 255 CHR ''a'') = CHR ''_'' # replicate 255 CHR ''a''"
proof -
  have "is_ascii (CHR ''/'' # replicate 255 CHR ''a'')"
    by (simp add: is_ascii_def list_all_iff)
  then show ?thesis by (simp add: sanitizePath_ascii is_alnum_or_filler_def)
qed

lemma TraceMiddleware_healthcheck:
  assumes "next healthcheck_request = calls"
      and "next (healthcheck_request\<lparr>Context :=
                   ContextWithSpan (WithCancel Background) (SDKSpan 0)\<rparr>) = calls"
      and "status = (if header_codes calls = [] then 200 else last (header_codes calls))"
  shows "TraceMiddleware next [] healthcheck_request (Float64 0) running
           = Return (calls, after_healthcheck status)"
  using assms
  by (simp add: TraceMiddleware_def StartSpan_def tracer_Start_def span_SetAttributes_def
        span_End_def ServeHTTP_statusCode ServeHTTP_ResponseWriter RecordHistogram_def
        IncrementCounter_def CreateDynamicCounter_def CreateCounter_def meter_new_def
        checking_meter_def emit_def running_def healthcheck_request_def methodPathCounter_def
        ToLower_GET sanitizePath_healthcheck StatusOK_def Let_def after_healthcheck_def
        healthcheck_span_attributes_def healthcheck_labels_def del: One_nat_def)

text \<open>
  C3, at a handler that calls \<open>WriteHeader\<close> more than once or after the body. A
  handler that calls \<open>WriteHeader(404)\<close> and then \<open>WriteHeader(500)\<close> wrote 404 first,
  the status the client receives, and the request is recorded with status 500, in the
  attribute of the span and in the labels of the histogram observation and of the
  counter increments. A handler that writes its body, which sends the implicit status
  200, and then calls \<open>WriteHeader(500)\<close> is recorded with status 500 as well. And with
  telemetry disabled the request of a handler that calls \<open>WriteHeader(404)\<close> is not
  recorded at all: the middleware panics in \<open>IncrementCounter\<close>.
\<close>

theorem TraceMiddleware_records_status_written_last:
  "hd (header_codes (handler_404_then_500 healthcheck_request)) = 404
   \<and> TraceMiddleware handler_404_then_500 [] healthcheck_request (Float64 0) running
       = Return ([WriteHeader 404, WriteHeader 500], after_healthcheck 500)
   \<and> TraceMiddleware handler_body_then_500 [] healthcheck_request (Float64 0) running
       = Return ([Write ''ok'', WriteHeader 500], after_healthcheck 500)
   \<and> histogram_records (new_effects running (after_healthcheck 500))
       = [HistogramRecord 6 (Float64 0)
            [attribute_String ''method'' ''GET'', attribute_String ''path'' ''/v1/healthcheck'',
             attribute_Int ''status'' 500]]
   \<and> counter_adds (new_effects running (after_healthcheck 500))
       = [CounterAdd 7 1
            [attribute_String ''method'' ''GET'', attribute_String ''path'' ''/v1/healthcheck'',
             attribute_Int ''status'' 500],
          CounterAdd 8 1 [attribute_Int ''status'' 500]]
   \<and> count_list (new_effects running (after_healthcheck 500))
        (SpanSetAttributes 0 [attribute_Int ''http.status_code'' 500]) = 1
   \<and> TraceMiddleware handler_404 [] healthcheck_request (Float64 0) disabled = Panic"
proof -
  have a: "TraceMiddleware handler_404_then_500 [] healthcheck_request (Float64 0) running
             = Return ([WriteHeader 404, WriteHeader 500], after_healthcheck 500)"
    by (rule TraceMiddleware_healthcheck) (simp_all add: handler_404_then_500_def)
  have a': "TraceMiddleware handler_body_then_500 [] healthcheck_request (Float64 0) running
             = Return ([Write ''ok'', WriteHeader 500], after_healthcheck 500)"
    by (rule TraceMiddleware_healthcheck) (simp_all add: handler_body_then_500_def)
  have b: "new_effects running (after_healthcheck 500)
             = [SpanStart 0 ''http_request'',
                SpanSetAttributes 0 healthcheck_span_attributes,
                SpanSetAttributes 0 [attribute_Int ''http.status_code'' 500],
                HistogramRecord 6 (Float64 0) (healthcheck_labels 500),
                CounterAdd 7 1 (healthcheck_labels 500),
                CounterAdd 8 1 [attribute_Int ''status'' 500],
                SpanEnd 0]"
    by (simp add: new_effects_def running_def after_healthcheck_def)
  have c: "TraceMiddleware handler_404 [] healthcheck_request (Float64 0) disabled = Panic"
    by (simp add: TraceMiddleware_def StartSpan_def span_SetAttributes_def RecordHistogram_def
          IncrementCounter_def CreateDynamicCounter_def CreateCounter_def meter_new_def emit_def
          disabled_def initial_def Let_def)
  have d: "hd (header_codes (handler_404_then_500 healthcheck_request)) = 404"
    by (simp add: handler_404_then_500_def)
  have e: "count_list (new_effects running (after_healthcheck 500))
             (SpanSetAttributes 0 [attribute_Int ''http.status_code'' 500]) = 1"
    by (simp add: b healthcheck_span_attributes_def attribute_Int_def attribute_String_def)
  from a a' c d e show ?thesis
    by (simp add: b healthcheck_labels_def histogram_records_def counter_adds_def)
qed

lemma sanitize_rune_alnum:
  "char_of (sanitize_rune r) = (if is_ascii_alnum r then char_of r else CHR ''_'')"
  by (auto simp: sanitize_rune_def is_ascii_alnum_def char_of_filler)

text \<open>
  C8, as the code has it. For a request that the middleware completes, with method
  \<open>m\<close> (an ASCII token) and path \<open>p\<close>: if the counter named
  \<open>http_requests_<m in lower case>_<sanitized p>\<close> is registered after the request
  (it was there before, or the meter created it), that counter is incremented once, by
  1, with the status held by the wrapper as its attribute, and that is the last
  counter increment of the at most two of the request; the sanitized path has, for
  each rune of \<open>p\<close>, the rune itself if it is an ASCII letter or digit and an
  underscore if not.
\<close>

theorem per_route_counter_incremented_once:
  fixes s :: "'v telemetry"
  assumes "TraceMiddleware next w r seconds s = Return (w', s')"
      and "is_ascii (Method r)"
      and "counters s' (''http_requests_'' @ ToLower (Method r) @ ''_'' @ sanitizePath (URL_Path r))
             = Some i"
      and "status = statusCode (ServeHTTP next \<lparr>ResponseWriter = w, statusCode = StatusOK\<rparr>
                      (r\<lparr>Context := fst (fst (StartSpan (Context r) ''http_request'' s))\<rparr>))"
  shows "count_list (new_effects s s') (CounterAdd i 1 [attribute_Int ''status'' status]) = 1
       \<and> last (counter_adds (new_effects s s')) = CounterAdd i 1 [attribute_Int ''status'' status]
       \<and> length (counter_adds (new_effects s s')) \<le> 2
       \<and> sanitizePath (URL_Path r)
           = map (\<lambda>c. if is_ascii_alnum c then char_of c else CHR ''_'') (runes (URL_Path r))"
proof -
  define labels where "labels = [attribute_String ''method'' (Method r),
                                attribute_String ''path'' (URL_Path r),
                                attribute_Int ''status'' status]"
  from assms(3) have reg: "counters s' (methodPathCounter (Method r) (URL_Path r)) = Some i"
    by (simp add: methodPathCounter_def)
  define calls
    where "calls = next (r\<lparr>Context := fst (fst (StartSpan (Context r) ''http_request'' s))\<rparr>)"
  from assms(4)
  have status: "status = (if header_codes calls = [] then 200 else last (header_codes calls))"
    by (simp add: ServeHTTP_statusCode StatusOK_def calls_def)
  from TraceMiddleware_effects [OF assms(1) calls_def status labels_def]
  obtain pre x y z post where
    eff: "effects s' = effects s @ pre @ [x, y, z] @ post" and
    x: "x = (case histograms s ''http_request_duration_seconds'' of
               Some h \<Rightarrow> HistogramRecord h seconds labels
             | None \<Rightarrow> LogPrintf (''Warning: Histogram ''
                                  @ quoted ''http_request_duration_seconds'' @ '' not found''))" and
    pre: "list_all is_span_effect pre" and post: "list_all is_span_effect post" and
    y: "case counters s ''http_requests_total'' of
          Some c \<Rightarrow> y = CounterAdd c 1 labels
        | None \<Rightarrow> is_LogPrintf y \<or> (\<exists>c. y = CounterAdd c 1 labels)" and
    z: "z = CounterAdd i 1 [attribute_Int ''status'' status]"
    by (auto simp: reg)
  from eff have new: "new_effects s s' = pre @ [x, y, z] @ post"
    by (rule new_effects_append)
  have xn: "\<And>v attrs. x \<noteq> CounterAdd i v attrs"
    by (simp add: x split: option.splits)
  have yn: "y \<noteq> CounterAdd i v [attribute_Int ''status'' status]" for v
    using y by (cases y) (auto simp: labels_def split: option.splits)
  have pn: "count_list pre (CounterAdd i v attrs) = 0"
           "count_list post (CounterAdd i v attrs) = 0" for v attrs
    using pre post by (simp_all add: span_effects_are_no_metrics)
  have one: "count_list (new_effects s s') (CounterAdd i 1 [attribute_Int ''status'' status]) = 1"
    using xn yn by (simp add: new z pn)
  have xc: "\<not> is_CounterAdd x" by (simp add: x split: option.splits)
  have adds: "counter_adds (new_effects s s') = filter is_CounterAdd [y] @ [z]"
    using xc by (simp add: counter_adds_def new z span_effects_are_no_metrics [OF pre]
                   span_effects_are_no_metrics [OF post])
  have lst: "last (counter_adds (new_effects s s'))
               = CounterAdd i 1 [attribute_Int ''status'' status]"
    by (simp add: adds z)
  have len: "length (counter_adds (new_effects s s')) \<le> 2"
    by (simp add: adds)
  have san: "sanitizePath (URL_Path r)
           = map (\<lambda>c. if is_ascii_alnum c then char_of c else CHR ''_'') (runes (URL_Path r))"
    by (simp add: sanitizePath_runes sanitize_rune_alnum)
  from one lst len san show ?thesis by blast
qed

lemma TraceMiddleware_long_path:
  "TraceMiddleware handler_body_only [] long_path_request (Float64 0) running
     = Return ([Write ''ok''], after_long_path)"
  by (simp add: TraceMiddleware_def StartSpan_def tracer_Start_def span_SetAttributes_def
        span_End_def ServeHTTP_statusCode ServeHTTP_ResponseWriter RecordHistogram_def
        IncrementCounter_def CreateDynamicCounter_def CreateCounter_def meter_new_def
        checking_meter_def emit_def running_def long_path_request_def methodPathCounter_def
        ToLower_GET sanitizePath_long_path StatusOK_def Let_def after_long_path_def
        long_path_labels_def handler_body_only_def del: One_nat_def)

theorem per_route_counter_incremented_once_witness:
  "TraceMiddleware handler_body_only [] healthcheck_request (Float64 0) running
     = Return ([Write ''ok''], after_healthcheck 200)
   \<and> is_ascii (Method healthcheck_request)
   \<and> counters (after_healthcheck 200) ''http_requests_get__v1_healthcheck'' = Some 8
   \<and> count_list (new_effects running (after_healthcheck 200))
        (CounterAdd 8 1 [attribute_Int ''status'' 200]) = 1
   \<and> last (counter_adds (new_effects running (after_healthcheck 200)))
       = CounterAdd 8 1 [attribute_Int ''status'' 200]
   \<and> sanitizePath ''/v1/healthcheck''
       = map (\<lambda>c. if is_ascii_alnum c then char_of c else CHR ''_'') (runes ''/v1/healthcheck'')"
proof -
  have a: "TraceMiddleware handler_body_only [] healthcheck_request (Float64 0) running
             = Return ([Write ''ok''], after_healthcheck 200)"
    by (rule TraceMiddleware_healthcheck) (simp_all add: handler_body_only_def)
  have b: "is_ascii (Method healthcheck_request)"
    by (simp add: is_ascii_def healthcheck_request_def)
  have c: "counters (after_healthcheck 200)
             (''http_requests_'' @ ToLower (Method healthcheck_request) @ ''_''
                @ sanitizePath (URL_Path healthcheck_request)) = Some 8"
    by (simp add: after_healthcheck_def healthcheck_request_def ToLower_GET
          sanitizePath_healthcheck)
  have d: "(200::int) = statusCode (ServeHTTP handler_body_only
             \<lparr>ResponseWriter = [], statusCode = StatusOK\<rparr>
             (healthcheck_request\<lparr>Context :=
                fst (fst (StartSpan (Context healthcheck_request) ''http_request'' running))\<rparr>))"
    by (simp add: ServeHTTP_statusCode StatusOK_def handler_body_only_def)
  have f: "URL_Path healthcheck_request = ''/v1/healthcheck''"
    by (simp add: healthcheck_request_def)
  have g: "counters (after_healthcheck 200) ''http_requests_get__v1_healthcheck'' = Some 8"
    by (simp add: after_healthcheck_def)
  from per_route_counter_incremented_once [OF a b c d] a b g show ?thesis
    by (simp add: f)
qed

text \<open>
  C8 as stated fails: for a path of 256 bytes the name of the per-route counter is
  longer than the meter accepts, the creation fails, and the request increments
  \<open>http_requests_total\<close> only; no counter of that name is registered or incremented.
\<close>

theorem per_route_counter_dropped_for_long_path:
  "TraceMiddleware handler_body_only [] long_path_request (Float64 0) running
     = Return ([Write ''ok''], after_long_path)
   \<and> methodPathCounter (Method long_path_request) (URL_Path long_path_request)
       = ''http_requests_get__'' @ replicate 255 CHR ''a''
   \<and> counters after_long_path (''http_requests_get__'' @ replicate 255 CHR ''a'') = None
   \<and> counter_adds (new_effects running after_long_path) = [CounterAdd 7 1 long_path_labels]"
proof -
  have n: "methodPathCounter (Method long_path_request) (URL_Path long_path_request)
             = ''http_requests_get__'' @ replicate 255 CHR ''a''"
    by (simp add: methodPathCounter_def long_path_request_def ToLower_GET sanitizePath_long_path)
  have c: "counters after_long_path (''http_requests_get__'' @ replicate 255 CHR ''a'') = None"
    by (simp add: after_long_path_def running_def)
  have e: "counter_adds (new_effects running after_long_path) = [CounterAdd 7 1 long_path_labels]"
    by (simp add: counter_adds_def new_effects_def running_def after_long_path_def)
  from TraceMiddleware_long_path n c e show ?thesis by simp
qed


end
